theory Spec2Isabelle
  imports Complex_Main "HOL-Library.Product_Lexorder"
begin

section \<open>Python strings\<close>

text \<open>
  A Python \<open>str\<close> is modelled as a HOL \<open>string\<close>. The case mappings below are those of
  \<open>str.lower\<close>, \<open>str.upper\<close> and \<open>str.title\<close> on ASCII text; every name the program
  compares against is ASCII. Code points beyond ASCII are outside this model.
\<close>

definition is_upper :: "char \<Rightarrow> bool" where
  "is_upper c = (65 \<le> (of_char c :: nat) \<and> (of_char c :: nat) \<le> 90)"

definition is_lower :: "char \<Rightarrow> bool" where
  "is_lower c = (97 \<le> (of_char c :: nat) \<and> (of_char c :: nat) \<le> 122)"

definition is_cased :: "char \<Rightarrow> bool" where
  "is_cased c = (is_upper c \<or> is_lower c)"

text \<open>
  Upper- and lower-case ASCII letters differ by 32, which is bit 5 of the character code:
  it is clear in \<open>A\<close>..\<open>Z\<close> (65..90) and set in \<open>a\<close>..\<open>z\<close> (97..122).
\<close>

fun lower_char :: "char \<Rightarrow> char" where
  "lower_char (Char b0 b1 b2 b3 b4 b5 b6 b7) =
     (if is_upper (Char b0 b1 b2 b3 b4 b5 b6 b7)
      then Char b0 b1 b2 b3 b4 True b6 b7
      else Char b0 b1 b2 b3 b4 b5 b6 b7)"

fun upper_char :: "char \<Rightarrow> char" where
  "upper_char (Char b0 b1 b2 b3 b4 b5 b6 b7) =
     (if is_lower (Char b0 b1 b2 b3 b4 b5 b6 b7)
      then Char b0 b1 b2 b3 b4 False b6 b7
      else Char b0 b1 b2 b3 b4 b5 b6 b7)"

definition lower :: "string \<Rightarrow> string" where
  "lower s = map lower_char s"

definition upper :: "string \<Rightarrow> string" where
  "upper s = map upper_char s"

text \<open>
  \<open>str.title\<close>: a cased character is upper-cased when the character before it is not
  cased (or there is none) and lower-cased otherwise.
\<close>

fun title_from :: "bool \<Rightarrow> string \<Rightarrow> string" where
  "title_from previous_is_cased [] = []"
| "title_from previous_is_cased (c # cs) =
     (if is_cased c
      then (if previous_is_cased then lower_char c else upper_char c) # title_from True cs
      else c # title_from False cs)"

definition title :: "string \<Rightarrow> string" where
  "title s = title_from False s"

text \<open>\<open>s.split(sep)\<close> with a one-character separator: never empty, \<open>"".split(",") == [""]\<close>.\<close>

fun split_on :: "char \<Rightarrow> string \<Rightarrow> string list" where
  "split_on sep [] = [[]]"
| "split_on sep (c # cs) =
     (if c = sep then [] # split_on sep cs
      else (case split_on sep cs of
              [] \<Rightarrow> [[c]]
            | p # ps \<Rightarrow> (c # p) # ps))"


section \<open>Python values and exceptions\<close>

text \<open>
  The exceptions the program can meet. \<open>Exception msg\<close> is the plain \<open>Exception(msg)\<close> the
  validating setters raise; \<open>DatabaseError\<close> is \<open>oracledb.DatabaseError\<close>. All of them are
  subclasses of Python's \<open>Exception\<close>.
\<close>

datatype error =
    NameError
  | AttributeError
  | TypeError
  | IndexError
  | DatabaseError
  | Exception string

text \<open>
  What a cursor hands back for one column of one row: \<open>None\<close>, an \<open>int\<close>, a \<open>str\<close>, or an
  \<open>array.array('f')\<close> for a vector column. A float32 is modelled by the real number it
  denotes.
\<close>

datatype val = VNull | VInt int | VStr string | VVec "real list"

text \<open>
  The conversion of an integer to float32 is exact up to \<open>2 ^ 24\<close> in absolute value; the
  model takes it as exact, which covers every age and income of the seed data.
\<close>

definition float32 :: "int \<Rightarrow> real" where
  "float32 i = of_int i"

text \<open>
  \<open>array.array('f', columns)\<close>: every element must be a number, anything else is a
  \<open>TypeError\<close>.
\<close>

fun array_f :: "val list \<Rightarrow> error + real list" where
  "array_f [] = Inr []"
| "array_f (VInt i # vs) =
     (case array_f vs of Inl e \<Rightarrow> Inl e | Inr fs \<Rightarrow> Inr (float32 i # fs))"
| "array_f (v # vs) = Inl TypeError"

text \<open>\<open>str(n)\<close> for an \<open>int\<close>, in decimal digits.\<close>

fun str_nat :: "nat \<Rightarrow> string" where
  "str_nat n =
     (if n < 10 then [''0123456789'' ! n]
      else str_nat (n div 10) @ [''0123456789'' ! (n mod 10)])"

declare str_nat.simps [simp del]

definition str_int :: "int \<Rightarrow> string" where
  "str_int i = (if i < 0 then CHR ''-'' # str_nat (nat (- i)) else str_nat (nat i))"

text \<open>\<open>int(x)\<close> for a float \<open>x\<close>: truncation towards zero.\<close>

definition int_of_float :: "real \<Rightarrow> int" where
  "int_of_float x = (if 0 \<le> x then \<lfloor>x\<rfloor> else \<lceil>x\<rceil>)"

section \<open>The database engine\<close>

text \<open>
  The database is an external collaborator: the program only sends it SQL text. This
  section is the model of the engine that the program is run against: the one table
  \<open>customer\<close>, and the meaning of each statement the program sends.
\<close>

record customer =
  ident :: nat
  name :: string
  age :: int
  income :: int
  profile :: "real list option"

text \<open>
  \<open>identity\<close> is the last value the identity column \<open>id\<close> handed out;
  \<open>profile_width\<close> is the declared dimension of the column \<open>profile\<close>, or \<open>None\<close> while the
  table has no such column. The database is \<open>None\<close> while the table does not exist.
\<close>

record table =
  rows :: "customer list"
  identity :: nat
  profile_width :: "nat option"

text \<open>
  Every statement either fails with \<open>DatabaseError\<close>, which leaves the table as it was, or
  yields the new database (a DDL or DML statement) or its result rows (a query). Rows
  come back in insertion order where the statement asks for no order.
\<close>

text \<open>\<^verbatim>\<open>drop table if exists customer\<close>\<close>

definition drop_table_if_exists :: "table option \<Rightarrow> error + table option" where
  "drop_table_if_exists d = Inr None"

text \<open>\<^verbatim>\<open>create table customer (id int generated as identity primary key, ...)\<close>\<close>

definition create_table :: "table option \<Rightarrow> error + table option" where
  "create_table d =
     (case d of
        None \<Rightarrow> Inr (Some \<lparr>rows = [], identity = 0, profile_width = None\<rparr>)
      | Some t \<Rightarrow> Inl DatabaseError)"

text \<open>
  \<^verbatim>\<open>INSERT INTO customer (name, age, income) VALUES (:1, :2, :3)\<close>, once for each bind. The
  identity column numbers the rows in the order they are inserted; a column the table
  has beside the three is \<open>NULL\<close>. \<open>name varchar2(30) not null\<close>: the empty string is
  \<open>NULL\<close> for the engine.
\<close>

fun insert_rows :: "(string \<times> int \<times> int) list \<Rightarrow> table \<Rightarrow> table" where
  "insert_rows [] t = t"
| "insert_rows ((n, a, i) # ds) t =
     insert_rows ds
       (t\<lparr>rows := rows t @
              [\<lparr>ident = Suc (identity t), name = n, age = a, income = i, profile = None\<rparr>],
          identity := Suc (identity t)\<rparr>)"

definition name_ok :: "string \<times> int \<times> int \<Rightarrow> bool" where
  "name_ok d = (0 < length (fst d) \<and> length (fst d) \<le> 30)"

definition insert_into_customer ::
  "(string \<times> int \<times> int) list \<Rightarrow> table option \<Rightarrow> error + table option" where
  "insert_into_customer data d =
     (case d of
        None \<Rightarrow> Inl DatabaseError
      | Some t \<Rightarrow>
          (if list_all name_ok data then Inr (Some (insert_rows data t)) else Inl DatabaseError))"

text \<open>\<^verbatim>\<open>alter table customer drop column profile\<close>: fails when there is no such column.\<close>

definition drop_column_profile :: "table option \<Rightarrow> error + table option" where
  "drop_column_profile d =
     (case d of
        None \<Rightarrow> Inl DatabaseError
      | Some t \<Rightarrow>
          (case profile_width t of
             None \<Rightarrow> Inl DatabaseError
           | Some n \<Rightarrow>
               Inr (Some (t\<lparr>rows := map (\<lambda>r. r\<lparr>profile := None\<rparr>) (rows t),
                             profile_width := None\<rparr>))))"

text \<open>
  \<^verbatim>\<open>alter table customer add profile vector(n, float32)\<close>: fails when the column exists
  already. The new column is \<open>NULL\<close> in every row.
\<close>

definition add_column_profile :: "nat \<Rightarrow> table option \<Rightarrow> error + table option" where
  "add_column_profile n d =
     (case d of
        None \<Rightarrow> Inl DatabaseError
      | Some t \<Rightarrow>
          (case profile_width t of
             None \<Rightarrow>
               (if 0 < n
                then Inr (Some (t\<lparr>rows := map (\<lambda>r. r\<lparr>profile := None\<rparr>) (rows t),
                                  profile_width := Some n\<rparr>))
                else Inl DatabaseError)
           | Some m \<Rightarrow> Inl DatabaseError))"

text \<open>
  \<^verbatim>\<open>select id, column_list from customer\<close>: each row is its \<open>id\<close> and the values of the
  columns of \<open>column_list\<close>. A select-list item is resolved as a plain lower-case column
  name, which is what \<open>set_column_list\<close> hands over; the engine rejects a name the table
  does not have.
\<close>

definition profile_val :: "customer \<Rightarrow> val" where
  "profile_val r = (case profile r of None \<Rightarrow> VNull | Some v \<Rightarrow> VVec v)"

definition column :: "table \<Rightarrow> string \<Rightarrow> (customer \<Rightarrow> val) option" where
  "column t c =
     (if c = ''id'' then Some (\<lambda>r. VInt (int (ident r)))
      else if c = ''name'' then Some (\<lambda>r. VStr (name r))
      else if c = ''age'' then Some (\<lambda>r. VInt (age r))
      else if c = ''income'' then Some (\<lambda>r. VInt (income r))
      else if c = ''profile'' \<and> profile_width t \<noteq> None then Some profile_val
      else None)"

fun resolve :: "table \<Rightarrow> string list \<Rightarrow> (customer \<Rightarrow> val) list option" where
  "resolve t [] = Some []"
| "resolve t (c # cs) =
     (case column t c of
        None \<Rightarrow> None
      | Some f \<Rightarrow> (case resolve t cs of None \<Rightarrow> None | Some fs \<Rightarrow> Some (f # fs)))"

definition select_id_and :: "string \<Rightarrow> table option \<Rightarrow> error + (nat \<times> val list) list" where
  "select_id_and column_list d =
     (case d of
        None \<Rightarrow> Inl DatabaseError
      | Some t \<Rightarrow>
          (case resolve t (split_on CHR '','' column_list) of
             None \<Rightarrow> Inl DatabaseError
           | Some fs \<Rightarrow> Inr (map (\<lambda>r. (ident r, map (\<lambda>f. f r) fs)) (rows t))))"

text \<open>
  \<^verbatim>\<open>update customer set profile = :1 where id = :2\<close>, once for each bind. A vector of the
  wrong dimension is rejected.
\<close>

definition update_one :: "nat \<Rightarrow> real list \<times> nat \<Rightarrow> customer list \<Rightarrow> error + customer list" where
  "update_one n b rs =
     (if length (fst b) = n
      then Inr (map (\<lambda>r. if ident r = snd b then r\<lparr>profile := Some (fst b)\<rparr> else r) rs)
      else Inl DatabaseError)"

fun update_each :: "nat \<Rightarrow> (real list \<times> nat) list \<Rightarrow> customer list \<Rightarrow> error + customer list" where
  "update_each n [] rs = Inr rs"
| "update_each n (b # bs) rs =
     (case update_one n b rs of Inl e \<Rightarrow> Inl e | Inr rs' \<Rightarrow> update_each n bs rs')"

definition update_profile :: "(real list \<times> nat) list \<Rightarrow> table option \<Rightarrow> error + table option" where
  "update_profile binds d =
     (case d of
        None \<Rightarrow> Inl DatabaseError
      | Some t \<Rightarrow>
          (case profile_width t of
             None \<Rightarrow> Inl DatabaseError
           | Some n \<Rightarrow>
               (case update_each n binds (rows t) of
                  Inl e \<Rightarrow> Inl e
                | Inr rs \<Rightarrow> Inr (Some (t\<lparr>rows := rs\<rparr>)))))"

text \<open>\<^verbatim>\<open>select name, profile from customer\<close>\<close>

definition select_name_profile :: "table option \<Rightarrow> error + (string \<times> real list option) list" where
  "select_name_profile d =
     (case d of
        None \<Rightarrow> Inl DatabaseError
      | Some t \<Rightarrow>
          (case profile_width t of
             None \<Rightarrow> Inl DatabaseError
           | Some n \<Rightarrow> Inr (map (\<lambda>r. (name r, profile r)) (rows t))))"

text \<open>\<^verbatim>\<open>select profile from customer where name = :1\<close>: one column, so each row is its profile.\<close>

definition select_profile_where_name :: "string \<Rightarrow> table option \<Rightarrow> error + real list option list" where
  "select_profile_where_name n d =
     (case d of
        None \<Rightarrow> Inl DatabaseError
      | Some t \<Rightarrow>
          (case profile_width t of
             None \<Rightarrow> Inl DatabaseError
           | Some w \<Rightarrow> Inr (map profile (filter (\<lambda>r. name r = n) (rows t)))))"

text \<open>
  The distance functions of \<open>vector_distance\<close>, in exact arithmetic. The engine knows the
  metric by its keyword, in any case; \<open>HAMMER\<close> is not one of them, and \<open>JACCARD\<close> is
  defined on binary vectors only, so on the float32 column it is rejected as well.
\<close>

datatype metric = COSINE | DOT | EUCLIDEAN | EUCLIDEAN_SQUARED | HAMMING | MANHATTAN

definition metric_of :: "string \<Rightarrow> metric option" where
  "metric_of s =
     (let u = upper s in
      if u = ''COSINE'' then Some COSINE
      else if u = ''DOT'' then Some DOT
      else if u = ''EUCLIDEAN'' then Some EUCLIDEAN
      else if u = ''EUCLIDEAN_SQUARED'' then Some EUCLIDEAN_SQUARED
      else if u = ''HAMMING'' then Some HAMMING
      else if u = ''MANHATTAN'' then Some MANHATTAN
      else None)"

definition dot_product :: "real list \<Rightarrow> real list \<Rightarrow> real" where
  "dot_product u v = sum_list (map (\<lambda>(a, b). a * b) (zip u v))"

definition euclidean_squared :: "real list \<Rightarrow> real list \<Rightarrow> real" where
  "euclidean_squared u v = sum_list (map (\<lambda>(a, b). (a - b)\<^sup>2) (zip u v))"

definition euclidean :: "real list \<Rightarrow> real list \<Rightarrow> real" where
  "euclidean u v = sqrt (euclidean_squared u v)"

fun vector_distance :: "metric \<Rightarrow> real list \<Rightarrow> real list \<Rightarrow> real" where
  "vector_distance EUCLIDEAN u v = euclidean u v"
| "vector_distance EUCLIDEAN_SQUARED u v = euclidean_squared u v"
| "vector_distance MANHATTAN u v = sum_list (map (\<lambda>(a, b). \<bar>a - b\<bar>) (zip u v))"
| "vector_distance DOT u v = - dot_product u v"
| "vector_distance COSINE u v =
     1 - dot_product u v / (sqrt (dot_product u u) * sqrt (dot_product v v))"
| "vector_distance HAMMING u v = real (length (filter (\<lambda>(a, b). a \<noteq> b) (zip u v)))"

text \<open>
  The sort key of \<open>order by vector_distance(profile, :1, m)\<close>, ascending: a \<open>NULL\<close>
  distance (a \<open>NULL\<close> profile or a \<open>NULL\<close> bind) sorts last.
\<close>

definition distance_key :: "metric \<Rightarrow> real list option \<Rightarrow> customer \<Rightarrow> bool \<times> real" where
  "distance_key m q r =
     (case (profile r, q) of
        (Some v, Some u) \<Rightarrow> (False, vector_distance m v u)
      | _ \<Rightarrow> (True, 0))"

text \<open>
  \<^verbatim>\<open>select name, profile from customer order by vector_distance(profile, :1, distance) fetch first :2 rows only\<close>.
  The bind \<open>:1\<close> is a vector of the column's dimension or \<open>NULL\<close>. Rows at the same
  distance keep their insertion order.
\<close>

definition select_nearest ::
  "string \<Rightarrow> real list option \<Rightarrow> int \<Rightarrow> table option \<Rightarrow> error + (string \<times> real list option) list" where
  "select_nearest distance q k d =
     (case d of
        None \<Rightarrow> Inl DatabaseError
      | Some t \<Rightarrow>
          (case (profile_width t, metric_of distance) of
             (Some w, Some m) \<Rightarrow>
               (if q = None \<or> map_option length q = Some w
                then Inr (map (\<lambda>r. (name r, profile r))
                            (take (nat k) (sort_key (distance_key m q) (rows t))))
                else Inl DatabaseError)
           | _ \<Rightarrow> Inl DatabaseError))"

section \<open>The program state\<close>

text \<open>
  The module-level name \<open>connection\<close> does not exist until \<open>init\<close> assigns it, and it is
  \<open>None\<close> when \<open>get_connection\<close> failed.
\<close>

type_synonym handle = nat

datatype conn_var = Unbound | Bound "handle option"

text \<open>
  The first four fields are the module's globals. The others are the world around the
  process: the environment and the \<open>.env\<close> file, whether the server opens a session for
  given credentials (\<open>accepts user password dsn\<close>), how many sessions it has opened, the
  table, the text of every statement sent so far with the session it was sent on, and
  what has been printed.
\<close>

record world =
  columns_list :: string
  customer_name :: string
  distance_metric :: string
  connection :: conn_var
  environ :: "string \<rightharpoonup> string"
  dotenv :: "string \<rightharpoonup> string"
  accepts :: "string option \<Rightarrow> string option \<Rightarrow> string option \<Rightarrow> bool"
  sessions :: nat
  db :: "table option"
  trace :: "(handle \<times> string) list"
  stdout :: "string list"

text \<open>
  A Python function is a function from the world to its outcome, an exception or a
  value, and the world it leaves; what it changed before raising stays changed.
\<close>

type_synonym 'a prog = "world \<Rightarrow> (error + 'a) \<times> world"

definition and_then :: "'a prog \<Rightarrow> ('a \<Rightarrow> 'b prog) \<Rightarrow> 'b prog" where
  "and_then m f w = (case m w of (Inl e, w') \<Rightarrow> (Inl e, w') | (Inr x, w') \<Rightarrow> f x w')"

definition done_with :: "'a \<Rightarrow> 'a prog" where
  "done_with x w = (Inr x, w)"

definition lift :: "error + 'a \<Rightarrow> 'a prog" where
  "lift r w = (r, w)"

text \<open>\<open>try: body except oracledb.DatabaseError: handler\<close>\<close>

definition except_DatabaseError :: "'a prog \<Rightarrow> 'a prog \<Rightarrow> 'a prog" where
  "except_DatabaseError body handler w =
     (case body w of (Inl DatabaseError, w') \<Rightarrow> handler w' | r \<Rightarrow> r)"

text \<open>\<open>connection.cursor()\<close>, on the module-level \<open>connection\<close>.\<close>

definition cursor :: "handle prog" where
  "cursor w =
     (case connection w of
        Unbound \<Rightarrow> (Inl NameError, w)
      | Bound None \<Rightarrow> (Inl AttributeError, w)
      | Bound (Some h) \<Rightarrow> (Inr h, w))"

text \<open>
  \<open>cursor.execute(sql)\<close> on a cursor of session \<open>h\<close>, for a statement that yields no rows:
  \<open>effect\<close> is what the engine makes of \<open>sql\<close>.
\<close>

definition execute :: "handle \<Rightarrow> string \<Rightarrow> (table option \<Rightarrow> error + table option) \<Rightarrow> unit prog" where
  "execute h sql effect w =
     (case effect (db w) of
        Inl e \<Rightarrow> (Inl e, w\<lparr>trace := trace w @ [(h, sql)]\<rparr>)
      | Inr d \<Rightarrow> (Inr (), w\<lparr>db := d, trace := trace w @ [(h, sql)]\<rparr>))"

text \<open>
  \<open>cursor.execute(sql)\<close> followed by \<open>cursor.fetchall()\<close>, for a query: \<open>result\<close> is what the
  engine answers to \<open>sql\<close>.
\<close>

definition fetchall :: "handle \<Rightarrow> string \<Rightarrow> (table option \<Rightarrow> error + 'a list) \<Rightarrow> 'a list prog" where
  "fetchall h sql result w =
     (case result (db w) of
        Inl e \<Rightarrow> (Inl e, w\<lparr>trace := trace w @ [(h, sql)]\<rparr>)
      | Inr rs \<Rightarrow> (Inr rs, w\<lparr>trace := trace w @ [(h, sql)]\<rparr>))"

text \<open>\<open>cursor.executemany(sql, binds)\<close> sends nothing when there are no binds.\<close>

definition executemany ::
  "handle \<Rightarrow> string \<Rightarrow> ('b list \<Rightarrow> table option \<Rightarrow> error + table option) \<Rightarrow> 'b list \<Rightarrow> unit prog" where
  "executemany h sql effect binds =
     (if binds = [] then done_with () else execute h sql (effect binds))"

text \<open>\<open>connection.commit()\<close>, on the module-level \<open>connection\<close>.\<close>

definition commit :: "unit prog" where
  "commit = and_then cursor (\<lambda>h. execute h ''commit'' Inr)"

section \<open>The program\<close>

text \<open>
  \<open>load_dotenv()\<close> adds the variables of the \<open>.env\<close> file that the environment does not
  set already.
\<close>

definition load_dotenv :: "world \<Rightarrow> world" where
  "load_dotenv w = w\<lparr>environ := dotenv w ++ environ w\<rparr>"

definition oracledb_connect :: "string option \<Rightarrow> string option \<Rightarrow> string option \<Rightarrow> handle prog" where
  "oracledb_connect user password dsn w =
     (if accepts w user password dsn
      then (Inr (sessions w), w\<lparr>sessions := Suc (sessions w)\<rparr>)
      else (Inl DatabaseError, w))"

definition get_connection :: "handle option prog" where
  "get_connection w =
     (let w1 = load_dotenv w;
          dsn = environ w1 ''DB_URL'';
          username = environ w1 ''DB_USER'';
          password = environ w1 ''DB_PASS''
      in case oracledb_connect username password dsn w1 of
           (Inr h, w2) \<Rightarrow> (Inr (Some h), w2)
         | (Inl e, w2) \<Rightarrow> (Inr None, w2\<lparr>stdout := stdout w2 @ [''Connection failed!'']\<rparr>))"

definition data_to_insert :: "(string \<times> int \<times> int) list" where
  "data_to_insert =
     [(''John'', 28, 6500),
      (''Jessica'', 22, 7000),
      (''David'', 31, 3900),
      (''Matthew'', 38, 5200),
      (''Brandon'', 35, 4700),
      (''Joshua'', 25, 2600),
      (''Amanda'', 33, 6500),
      (''Lauren'', 39, 5500),
      (''James'', 26, 3200),
      (''Olivia'', 44, 8200)]"

definition insert_data :: "unit prog" where
  "insert_data =
     and_then cursor (\<lambda>h.
     and_then (executemany h ''INSERT INTO customer (name, age, income) VALUES (:1, :2, :3)''
                 insert_into_customer data_to_insert) (\<lambda>_.
     commit))"

text \<open>The loop \<open>for s in sql: cursor.execute(s)\<close>; its \<open>except\<close> clause re-raises.\<close>

fun execute_each ::
  "handle \<Rightarrow> (string \<times> (table option \<Rightarrow> error + table option)) list \<Rightarrow> unit prog" where
  "execute_each h [] = done_with ()"
| "execute_each h (s # ss) = and_then (execute h (fst s) (snd s)) (\<lambda>_. execute_each h ss)"

text \<open>The text of \<open>create_table\<close> is given with its line breaks and indentation removed.\<close>

definition create_schema :: "unit prog" where
  "create_schema =
     and_then cursor (\<lambda>h.
     (let drop_table = ''drop table if exists customer'';
          create_table_sql =
            ''create table customer (id int generated as identity primary key, name varchar2(30) not null, age int not null, income int not null)'';
          sql = [(drop_table, drop_table_if_exists), (create_table_sql, create_table)]
      in and_then (execute_each h sql) (\<lambda>_.
         insert_data)))"

text \<open>
  The loop of \<open>vectorize_data\<close> that builds \<open>binds\<close> from the fetched rows: \<open>row[0]\<close> is the
  \<open>id\<close>, \<open>row[1:]\<close> the selected columns.
\<close>

fun make_binds :: "(nat \<times> val list) list \<Rightarrow> error + (real list \<times> nat) list" where
  "make_binds [] = Inr []"
| "make_binds ((i, columns) # rest) =
     (case array_f columns of
        Inl e \<Rightarrow> Inl e
      | Inr profile_embedding \<Rightarrow>
          (case make_binds rest of
             Inl e \<Rightarrow> Inl e
           | Inr binds \<Rightarrow> Inr ((profile_embedding, i) # binds)))"

definition vectorize_data :: "string \<Rightarrow> unit prog" where
  "vectorize_data column_list =
     (let n = length (split_on CHR '','' column_list);
          remove_vector_column = ''alter table customer drop column profile'';
          add_vector_column = ''alter table customer add profile vector('' @ str_nat n @ '', float32)''
      in and_then cursor (\<lambda>h.
         and_then
           (except_DatabaseError
              (and_then (execute h remove_vector_column drop_column_profile) (\<lambda>_.
                 execute h add_vector_column (add_column_profile n)))
              (execute h add_vector_column (add_column_profile n))) (\<lambda>_.
         and_then cursor (\<lambda>h.
         and_then (fetchall h (''select id, '' @ column_list @ '' from customer'')
                     (select_id_and column_list)) (\<lambda>query_resultset.
         and_then (lift (make_binds query_resultset)) (\<lambda>binds.
         and_then (executemany h ''update customer set profile = :1 where id = :2''
                     update_profile binds) (\<lambda>_.
         commit)))))))"

definition get_customer_profiles :: "(string \<times> real list option) list prog" where
  "get_customer_profiles =
     and_then cursor (\<lambda>h.
     fetchall h ''select name, profile from customer'' select_name_profile)"

text \<open>
  \<open>cursor.fetchone()\<close> is the first row or \<open>None\<close>, and \<open>None[0]\<close> is a \<open>TypeError\<close>; the
  row has one column.
\<close>

definition fetchone_0 :: "'a list \<Rightarrow> error + 'a" where
  "fetchone_0 rs = (case rs of [] \<Rightarrow> Inl TypeError | embedding_profile # _ \<Rightarrow> Inr embedding_profile)"

text \<open>
  \<open>sql.replace("distance_metric", distance)\<close> puts \<open>distance\<close> where the text has its one
  \<open>distance_metric\<close>.
\<close>

definition get_similiar_customer_profiles ::
  "string \<Rightarrow> string \<Rightarrow> int \<Rightarrow> string \<Rightarrow> (string \<times> real list option) list prog" where
  "get_similiar_customer_profiles column_list n k distance =
     and_then cursor (\<lambda>h.
     and_then (fetchall h ''select profile from customer where name = :1''
                 (select_profile_where_name n)) (\<lambda>rs.
     and_then (lift (fetchone_0 rs)) (\<lambda>embedding_profile_0.
     fetchall h
       (''select name, profile from customer order by vector_distance(profile, :1, '' @ distance
          @ '') fetch first :2 rows only'')
       (select_nearest distance embedding_profile_0 k))))"

definition column_allow_list :: "string list" where
  "column_allow_list = [''age'', ''income'', ''is_single'', ''no_children'', ''no_cars'']"

definition set_column_list :: "string \<Rightarrow> unit prog" where
  "set_column_list columns w =
     (let w1 = w\<lparr>columns_list := lower columns\<rparr>;
          col_list = split_on CHR '','' (columns_list w1)
      in if \<not> length col_list = 2
         then (Inl (Exception ''Specify 1 or 2 columns''), w1)
         else if list_ex (\<lambda>item. item \<notin> set column_allow_list) col_list
         then (Inl (Exception
                 ''Column list should contain only age, inome, is_single, no_children or no_cars''), w1)
         else (Inr (), w1))"

definition customer_allow_list :: "string list" where
  "customer_allow_list =
     [''Jessica'', ''David'', ''Matthew'', ''Brandon'', ''Joshua'', ''Amanda'', ''Lauren'',
      ''James'', ''Olivia'']"

definition set_customer :: "string \<Rightarrow> unit prog" where
  "set_customer n w =
     (let w1 = w\<lparr>customer_name := title n\<rparr>
      in if title (customer_name w1) \<notin> set customer_allow_list
         then (Inl (Exception
                 ''Customer name must be one of Jessica, David, Matthew, Brandon, Joshua, Amanda, Lauren, James, Olivia''), w1)
         else (Inr (), w1))"

definition distance_allow_list :: "string list" where
  "distance_allow_list =
     [''COSINE'', ''EUCLIDEAN'', ''EUCLIDEAN_SQUARED'', ''HAMMER'', ''MANHATTAN'', ''JACCARD'',
      ''DOT'']"

definition set_distance_metric :: "string \<Rightarrow> unit prog" where
  "set_distance_metric distance w =
     (let w1 = w\<lparr>distance_metric := upper distance\<rparr>
      in if upper (distance_metric w1) \<notin> set distance_allow_list
         then (Inl (Exception
                 ''Distance must be one of CONSINE, EUCLIDEAN, EUCLIDEAN_SQUARE, MANHATTAN, JACCARD, DOT''), w1)
         else (Inr (), w1))"

definition init :: "unit prog" where
  "init = and_then get_connection (\<lambda>c w. (Inr (), w\<lparr>connection := Bound c\<rparr>))"

section \<open>The charts\<close>

text \<open>
  The plotting libraries are external. A chart is modelled by what the program hands
  them: the two axis names, the data frame (one row per customer: \<open>Name\<close> and the two
  coordinates), and one text annotation per data frame row.
\<close>

record annotation =
  at_x :: real
  at_y :: real
  label :: string
  color :: string
  fontsize :: nat
  fontweight :: string

record chart =
  x_axis :: string
  y_axis :: string
  data_frame :: "(string \<times> real \<times> real) list"
  annotations :: "annotation list"

text \<open>
  \<open>item[1][k]\<close> of one fetched \<open>(name, profile)\<close> row: a \<open>NULL\<close> profile is \<open>None\<close>, which has
  no items.
\<close>

definition item_1 :: "nat \<Rightarrow> string \<times> real list option \<Rightarrow> error + real" where
  "item_1 k item =
     (case snd item of
        None \<Rightarrow> Inl TypeError
      | Some v \<Rightarrow> (if k < length v then Inr (v ! k) else Inl IndexError))"

text \<open>A list comprehension: the first item that raises ends it.\<close>

fun for_each :: "('a \<Rightarrow> error + 'b) \<Rightarrow> 'a list \<Rightarrow> error + 'b list" where
  "for_each f [] = Inr []"
| "for_each f (x # xs) =
     (case f x of
        Inl e \<Rightarrow> Inl e
      | Inr y \<Rightarrow> (case for_each f xs of Inl e \<Rightarrow> Inl e | Inr ys \<Rightarrow> Inr (y # ys)))"

text \<open>
  The dictionary \<open>data\<close> after its \<open>Name\<close> entry, and the data frame made of it: the key
  \<open>cols[0]\<close>, the whole column of the \<open>item[1][0]\<close>, the key \<open>cols[1]\<close>, the whole column of
  the \<open>item[1][1]\<close>, in this order. When both keys are the same name the second column
  replaces the first. The keys are lower-case, so none of them is \<open>Name\<close>.
\<close>

definition frame ::
  "string list \<Rightarrow> string list \<Rightarrow> (string \<times> real list option) list \<Rightarrow> error + chart" where
  "frame cols names all_profiles =
     (case cols of
        [] \<Rightarrow> Inl IndexError
      | c0 # cs \<Rightarrow>
          (case for_each (item_1 0) all_profiles of
             Inl e \<Rightarrow> Inl e
           | Inr xs \<Rightarrow>
               (case cs of
                  [] \<Rightarrow> Inl IndexError
                | c1 # _ \<Rightarrow>
                    (case for_each (item_1 1) all_profiles of
                       Inl e \<Rightarrow> Inl e
                     | Inr ys \<Rightarrow>
                         Inr \<lparr>x_axis = c0, y_axis = c1,
                              data_frame = zip names (zip (if c0 = c1 then ys else xs) ys),
                              annotations = []\<rparr>))))"

text \<open>
  The \<open>Name\<close> of one row in \<open>customers_chart\<close>:
  \<open>item[0] + '[' + str(int(item[1][0])) + ',' + str(int(item[1][1])) + ']'\<close>.
\<close>

definition overview_name :: "string \<times> real list option \<Rightarrow> error + string" where
  "overview_name item =
     (case item_1 0 item of
        Inl e \<Rightarrow> Inl e
      | Inr a \<Rightarrow>
          (case item_1 1 item of
             Inl e \<Rightarrow> Inl e
           | Inr b \<Rightarrow>
               Inr (fst item @ ''['' @ str_int (int_of_float a) @ '','' @ str_int (int_of_float b)
                    @ '']'')))"

definition overview_text :: "string \<times> real \<times> real \<Rightarrow> annotation" where
  "overview_text row =
     (case row of (n, a, b) \<Rightarrow>
        \<lparr>at_x = a, at_y = b, label = n, color = ''black'', fontsize = 7,
         fontweight = ''normal''\<rparr>)"

definition customers_chart :: "string \<Rightarrow> string \<Rightarrow> chart prog" where
  "customers_chart columns distance =
     and_then (set_column_list columns) (\<lambda>_.
     and_then (set_distance_metric distance) (\<lambda>_.
     and_then create_schema (\<lambda>_.
     and_then (\<lambda>w. vectorize_data (columns_list w) w) (\<lambda>_.
     and_then get_customer_profiles (\<lambda>all_profiles.
     and_then (lift (for_each overview_name all_profiles)) (\<lambda>names.
     and_then (\<lambda>w. lift (frame (split_on CHR '','' (columns_list w)) names all_profiles) w) (\<lambda>df.
     done_with (df\<lparr>annotations := map overview_text (data_frame df)\<rparr>))))))))"

text \<open>
  The annotations of \<open>similarity_chart\<close>: the subject in red, the rows of the similarity
  result in bold and larger.
\<close>

definition similarity_text :: "string \<Rightarrow> string set \<Rightarrow> string \<times> real \<times> real \<Rightarrow> annotation" where
  "similarity_text subject similiar_profiles row =
     (case row of (n, a, b) \<Rightarrow>
        \<lparr>at_x = a, at_y = b, label = n,
         color = (if n = subject then ''red'' else ''black''),
         fontsize = (if n \<in> similiar_profiles then 10 else 7),
         fontweight = (if n \<in> similiar_profiles then ''bold'' else ''normal'')\<rparr>)"

text \<open>
  \<open>similarity_chart\<close> up to its two queries: it yields the rows of the similarity query
  and the rows of \<open>get_customer_profiles\<close>. The \<open>connection\<close> it assigns is a local
  variable of \<open>similarity_chart\<close>, here \<open>local_connection\<close>; the functions it calls read
  the module-level one.
\<close>

definition similarity_queries ::
  "string \<Rightarrow> string \<Rightarrow> string \<Rightarrow>
   ((string \<times> real list option) list \<times> (string \<times> real list option) list) prog" where
  "similarity_queries columns cust_name distance =
     and_then (set_column_list columns) (\<lambda>_.
     and_then (set_distance_metric distance) (\<lambda>_.
     and_then (set_customer cust_name) (\<lambda>_.
     and_then get_connection (\<lambda>local_connection.
     and_then create_schema (\<lambda>_.
     and_then (\<lambda>w. vectorize_data (columns_list w) w) (\<lambda>_.
     and_then (\<lambda>w. get_similiar_customer_profiles (columns_list w) (customer_name w) 3
                      (distance_metric w) w) (\<lambda>similarity_resultset.
     and_then get_customer_profiles (\<lambda>all_profiles.
     done_with (similarity_resultset, all_profiles)))))))))"

definition similarity_chart :: "string \<Rightarrow> string \<Rightarrow> string \<Rightarrow> chart prog" where
  "similarity_chart columns cust_name distance =
     and_then (similarity_queries columns cust_name distance)
       (\<lambda>(similarity_resultset, all_profiles).
     (let similiar_profiles = set (map fst similarity_resultset)
      in and_then (\<lambda>w. lift (frame (split_on CHR '','' (columns_list w)) (map fst all_profiles)
                                all_profiles) w) (\<lambda>df.
         and_then (\<lambda>w. done_with (customer_name w) w) (\<lambda>subject.
         done_with (df\<lparr>annotations :=
                          map (similarity_text subject similiar_profiles) (data_frame df)\<rparr>)))))"

section \<open>Worlds to run the program in\<close>

text \<open>
  \<open>fresh_process\<close> is the module just imported, beside a server that has no table yet and
  opens a session for the credentials of the \<open>.env\<close> file. \<open>started\<close> is that process
  after \<open>init()\<close>, and \<open>seeded\<close> is \<open>started\<close> after \<open>create_schema()\<close>. \<open>seed_table\<close> is the
  table with the ten seed rows and no embedding column.
\<close>

definition fresh_process :: world where
  "fresh_process =
     \<lparr>columns_list = '''', customer_name = '''', distance_metric = '''', connection = Unbound,
      environ = Map.empty,
      dotenv = [''DB_URL'' \<mapsto> ''localhost/freepdb1'', ''DB_USER'' \<mapsto> ''demo'',
                ''DB_PASS'' \<mapsto> ''secret''],
      accepts = (\<lambda>user password dsn.
         user = Some ''demo'' \<and> password = Some ''secret'' \<and> dsn = Some ''localhost/freepdb1''),
      sessions = 0, db = None, trace = [], stdout = []\<rparr>"

definition started :: world where
  "started = snd (init fresh_process)"

definition seed_table :: table where
  "seed_table = insert_rows data_to_insert \<lparr>rows = [], identity = 0, profile_width = None\<rparr>"

definition seeded :: world where
  "seeded = snd (create_schema started)"

text \<open>\<open>embedded_seed\<close> is \<open>seed_table\<close> with every row's \<open>[age, income]\<close> as its embedding.\<close>

definition embedded_seed :: table where
  "embedded_seed =
     seed_table\<lparr>rows := map (\<lambda>r. r\<lparr>profile := Some [float32 (age r), float32 (income r)]\<rparr>)
                             (rows seed_table),
                 profile_width := Some 2\<rparr>"

section \<open>The table that vectorize_data leaves\<close>

text \<open>
  Three notions for the proofs about \<open>vectorize_data\<close>, none of them part of the program.
  \<open>resized n t\<close> is the table after the column-resize step, \<open>populated column_list t\<close>
  what the compute step makes of a table, and \<open>vectorized column_list t\<close> both in a row.
\<close>

definition resized :: "nat \<Rightarrow> table \<Rightarrow> table" where
  "resized n t = t\<lparr>rows := map (\<lambda>r. r\<lparr>profile := None\<rparr>) (rows t), profile_width := Some n\<rparr>"

definition populated :: "string \<Rightarrow> table \<Rightarrow> error + table" where
  "populated column_list t =
     (case resolve t (split_on CHR '','' column_list) of
        None \<Rightarrow> Inl DatabaseError
      | Some fs \<Rightarrow>
          (case make_binds (map (\<lambda>r. (ident r, map (\<lambda>f. f r) fs)) (rows t)) of
             Inl e \<Rightarrow> Inl e
           | Inr binds \<Rightarrow>
               (case update_each (length (split_on CHR '','' column_list)) binds (rows t) of
                  Inl e \<Rightarrow> Inl e
                | Inr rs \<Rightarrow> Inr (t\<lparr>rows := rs\<rparr>))))"

definition vectorized :: "string \<Rightarrow> table \<Rightarrow> error + table" where
  "vectorized column_list t =
     populated column_list (resized (length (split_on CHR '','' column_list)) t)"

section \<open>What a function leaves unchanged\<close>

text \<open>
  More notions for the proofs. A function is \<open>stable\<close> for a relation between worlds
  when the relation holds between the world it starts in and the world it leaves,
  whatever its outcome. \<open>globals_kept\<close> relates two worlds that differ in nothing but the
  table and the statements sent.
\<close>

definition stable :: "(world \<Rightarrow> world \<Rightarrow> bool) \<Rightarrow> 'a prog \<Rightarrow> bool" where
  "stable R p = (\<forall>w. R w (snd (p w)))"

definition globals_kept :: "world \<Rightarrow> world \<Rightarrow> bool" where
  "globals_kept w w' = (w' = w\<lparr>db := db w', trace := trace w'\<rparr>)"

text \<open>
  \<open>sent_on h\<close> relates two worlds when, \<open>connection\<close> being bound to session \<open>h\<close> in the first,
  it is bound to the same in the second and every statement sent in between was sent on
  session \<open>h\<close>.
\<close>

definition sent_on :: "handle \<Rightarrow> world \<Rightarrow> world \<Rightarrow> bool" where
  "sent_on h w w' =
     (connection w = Bound (Some h) \<longrightarrow>
        connection w' = connection w
        \<and> (\<exists>ops. trace w' = trace w @ ops \<and> (\<forall>op \<in> set ops. fst op = h)))"

section \<open>The validating setters\<close>

text \<open>
  C3. \<open>set_distance_metric\<close> is to accept exactly the strings whose upper-cased form is one
  of COSINE, EUCLIDEAN, EUCLIDEAN_SQUARED, MANHATTAN, JACCARD, DOT. The allow-list of the
  code has a seventh entry, HAMMER, that its own error message does not name: the
  string \<open>hammer\<close>, whose upper-cased form is none of the six names, is accepted and
  stored.
\<close>

theorem set_distance_metric_accepts_hammer:
  "upper ''hammer'' \<notin> {''COSINE'', ''EUCLIDEAN'', ''EUCLIDEAN_SQUARED'', ''MANHATTAN'', ''JACCARD'', ''DOT''}
   \<and> set_distance_metric ''hammer'' w = (Inr (), w\<lparr>distance_metric := ''HAMMER''\<rparr>)"
  by (simp add: set_distance_metric_def upper_def is_lower_def distance_allow_list_def Let_def)

text \<open>
  C4, as the code has it. \<open>set_column_list\<close> succeeds when the lower-cased selection,
  split at the commas, has exactly two entries and both are on the allow-list; it raises
  an \<open>Exception\<close> otherwise. Either way the lower-cased selection has been stored in
  \<open>columns_list\<close> before the checks, and nothing else of the state has changed.
\<close>

theorem set_column_list_outcome:
  "set_column_list columns w =
     ((if length (split_on CHR '','' (lower columns)) = 2
          \<and> set (split_on CHR '','' (lower columns)) \<subseteq> set column_allow_list
       then Inr ()
       else if length (split_on CHR '','' (lower columns)) = 2
       then Inl (Exception ''Column list should contain only age, inome, is_single, no_children or no_cars'')
       else Inl (Exception ''Specify 1 or 2 columns'')),
      w\<lparr>columns_list := lower columns\<rparr>)"
  by (auto simp add: set_column_list_def Let_def list_ex_iff)

theorem set_column_list_outcome_witness:
  "set_column_list ''Age,Income'' fresh_process = (Inr (), fresh_process\<lparr>columns_list := ''age,income''\<rparr>)
   \<and> set_column_list ''age,height'' fresh_process =
       (Inl (Exception ''Column list should contain only age, inome, is_single, no_children or no_cars''),
        fresh_process\<lparr>columns_list := ''age,height''\<rparr>)"
  using set_column_list_outcome [of "''Age,Income''" fresh_process]
    set_column_list_outcome [of "''age,height''" fresh_process]
  by (simp add: lower_def is_upper_def column_allow_list_def)

text \<open>
  C4, as the claim has it, fails: a selection of one entry is rejected, and the stored
  selection is no longer what it was.
\<close>

theorem set_column_list_mutates_on_failure:
  "fst (set_column_list ''age'' fresh_process) = Inl (Exception ''Specify 1 or 2 columns'') \<and>
   columns_list (snd (set_column_list ''age'' fresh_process)) \<noteq> columns_list fresh_process"
  by (simp add: set_column_list_def fresh_process_def lower_def is_upper_def Let_def)

section \<open>The connection provider\<close>

text \<open>
  C8. Whenever the server opens no session for the credentials of the environment,
  \<open>get_connection\<close> raises nothing, returns \<open>None\<close>, and has printed its diagnostic.
\<close>

theorem get_connection_failure:
  "\<not> accepts w ((dotenv w ++ environ w) ''DB_USER'') ((dotenv w ++ environ w) ''DB_PASS'')
        ((dotenv w ++ environ w) ''DB_URL'')
   \<Longrightarrow> get_connection w =
        (Inr None, w\<lparr>environ := dotenv w ++ environ w, stdout := stdout w @ [''Connection failed!'']\<rparr>)"
  by (simp add: get_connection_def load_dotenv_def oracledb_connect_def Let_def)

theorem get_connection_failure_witness:
  "get_connection (fresh_process\<lparr>dotenv := Map.empty\<rparr>) =
     (Inr None, fresh_process\<lparr>dotenv := Map.empty, stdout := [''Connection failed!'']\<rparr>)"
  using get_connection_failure [of "fresh_process\<lparr>dotenv := Map.empty\<rparr>"]
  by (simp add: fresh_process_def)

section \<open>The schema initializer\<close>

lemma data_names_ok: "list_all name_ok data_to_insert"
  by (simp add: data_to_insert_def name_ok_def)

lemma data_nonempty: "data_to_insert \<noteq> []"
  by (simp add: data_to_insert_def)

lemma create_schema_run:
  "connection w = Bound (Some h) \<Longrightarrow>
   create_schema w =
     (Inr (), w\<lparr>db := Some seed_table,
               trace := trace w @
                 [(h, ''drop table if exists customer''),
                  (h, ''create table customer (id int generated as identity primary key, name varchar2(30) not null, age int not null, income int not null)''),
                  (h, ''INSERT INTO customer (name, age, income) VALUES (:1, :2, :3)''),
                  (h, ''commit'')]\<rparr>)"
  by (simp add: create_schema_def insert_data_def commit_def and_then_def done_with_def
      cursor_def execute_def executemany_def data_names_ok data_nonempty seed_table_def
      drop_table_if_exists_def create_table_def insert_into_customer_def Let_def)

lemma seed_names: "map name (rows seed_table) = map fst data_to_insert"
  by (simp add: seed_table_def data_to_insert_def)

lemma started_eq:
  "started = fresh_process\<lparr>environ := dotenv fresh_process, connection := Bound (Some 0), sessions := 1\<rparr>"
  by (simp add: started_def init_def and_then_def get_connection_def load_dotenv_def
      oracledb_connect_def fresh_process_def Let_def)

lemma started_connection: "connection started = Bound (Some 0)"
  by (simp add: started_eq)

lemma started_db: "db started = None"
  by (simp add: started_eq fresh_process_def)



lemma seed_data: "map (\<lambda>r. (name r, age r, income r)) (rows seed_table) = data_to_insert"
  by (simp add: seed_table_def data_to_insert_def)

text \<open>
  C5, as the code has it. When \<open>create_schema()\<close> is called and the table does not exist,
  the drop statement is \<open>drop table if exists customer\<close>, which the engine accepts and which
  leaves no table; \<open>create_schema\<close> raises nothing and goes on to create the table and to
  insert the ten seed rows.
\<close>

theorem create_schema_without_table:
  assumes "connection w = Bound (Some h)" "db w = None"
  shows "\<exists>w' t. create_schema w = (Inr (), w') \<and> db w' = Some t
            \<and> map (\<lambda>r. (name r, age r, income r)) (rows t) = data_to_insert
            \<and> drop_table_if_exists (db w) = Inr None"
proof (intro exI conjI)
  show "create_schema w = (Inr (), snd (create_schema w))"
    by (simp add: create_schema_run [OF assms(1)])
  show "db (snd (create_schema w)) = Some seed_table"
    by (simp add: create_schema_run [OF assms(1)])
  show "map (\<lambda>r. (name r, age r, income r)) (rows seed_table) = data_to_insert"
    by (rule seed_data)
  show "drop_table_if_exists (db w) = Inr None"
    by (simp add: drop_table_if_exists_def)
qed

theorem create_schema_without_table_witness:
  "db started = None \<and> (\<exists>w' t. create_schema started = (Inr (), w') \<and> db w' = Some t
            \<and> map (\<lambda>r. (name r, age r, income r)) (rows t) = data_to_insert
            \<and> drop_table_if_exists (db started) = Inr None)"
  using create_schema_without_table [OF started_connection started_db] started_db by simp

text \<open>
  C5, as the claim has it, fails: in \<open>started\<close> there is no table, and \<open>create_schema\<close>
  returns without an error and leaves one.
\<close>

theorem create_schema_absent_table_succeeds:
  "db started = None \<and> fst (create_schema started) = Inr ()
   \<and> db (snd (create_schema started)) \<noteq> None"
  by (simp add: create_schema_run [OF started_connection] started_db)

lemma set_customer_John:
  "set_customer ''John'' w =
     (Inl (Exception ''Customer name must be one of Jessica, David, Matthew, Brandon, Joshua, Amanda, Lauren, James, Olivia''),
      w\<lparr>customer_name := ''John''\<rparr>)"
  by (simp add: set_customer_def customer_allow_list_def title_def is_cased_def is_upper_def
      is_lower_def Let_def)

lemma allow_list_seed: "set customer_allow_list = set (map fst data_to_insert) - {''John''}"
  by (auto simp add: data_to_insert_def customer_allow_list_def)

lemma data_length: "length data_to_insert = 10"
  by (simp add: data_to_insert_def)

lemma John_seeded: "''John'' \<in> set (map fst data_to_insert)"
  by (simp add: data_to_insert_def)

text \<open>
  C9. After \<open>create_schema\<close>, whose last step is the seed loader \<open>insert_data\<close>, the table
  has ten rows, named as in \<open>data_to_insert\<close>, and one of them is \<open>John\<close>. The allow-list of
  \<open>set_customer\<close> is the names of these rows without \<open>John\<close>, and \<open>set_customer("John")\<close>
  raises (after storing the name).
\<close>

theorem set_customer_rejects_John:
  assumes "connection w = Bound (Some h)"
  shows "\<exists>w' t. create_schema w = (Inr (), w') \<and> db w' = Some t
           \<and> map name (rows t) = map fst data_to_insert \<and> length (rows t) = 10
           \<and> ''John'' \<in> set (map name (rows t))
           \<and> set customer_allow_list = set (map name (rows t)) - {''John''}
           \<and> set_customer ''John'' w' =
               (Inl (Exception ''Customer name must be one of Jessica, David, Matthew, Brandon, Joshua, Amanda, Lauren, James, Olivia''),
                w'\<lparr>customer_name := ''John''\<rparr>)"
proof (intro exI conjI)
  show "create_schema w = (Inr (), snd (create_schema w))"
    by (simp add: create_schema_run [OF assms])
  show "db (snd (create_schema w)) = Some seed_table"
    by (simp add: create_schema_run [OF assms])
  show "map name (rows seed_table) = map fst data_to_insert"
    by (rule seed_names)
  show "length (rows seed_table) = 10"
    using seed_names data_length by (metis length_map)
  show "''John'' \<in> set (map name (rows seed_table))"
    by (simp only: seed_names John_seeded)
  show "set customer_allow_list = set (map name (rows seed_table)) - {''John''}"
    by (simp only: seed_names allow_list_seed)
  show "set_customer ''John'' (snd (create_schema w)) =
          (Inl (Exception ''Customer name must be one of Jessica, David, Matthew, Brandon, Joshua, Amanda, Lauren, James, Olivia''),
           (snd (create_schema w))\<lparr>customer_name := ''John''\<rparr>)"
    by (rule set_customer_John)
qed

theorem set_customer_rejects_John_witness:
  "\<exists>w' t. create_schema started = (Inr (), w') \<and> db w' = Some t
           \<and> map name (rows t) = map fst data_to_insert \<and> length (rows t) = 10
           \<and> ''John'' \<in> set (map name (rows t))
           \<and> set customer_allow_list = set (map name (rows t)) - {''John''}
           \<and> set_customer ''John'' w' =
               (Inl (Exception ''Customer name must be one of Jessica, David, Matthew, Brandon, Joshua, Amanda, Lauren, James, Olivia''),
                w'\<lparr>customer_name := ''John''\<rparr>)"
  by (rule set_customer_rejects_John [OF started_connection])

section \<open>The embedding builder\<close>

lemma resized_sel [simp]:
  "profile_width (resized n t) = Some n"
  "rows (resized n t) = map (\<lambda>r. r\<lparr>profile := None\<rparr>) (rows t)"
  "identity (resized n t) = identity t"
  by (simp_all add: resized_def)

lemma cursor_bound: "connection w = Bound (Some h) \<Longrightarrow> cursor w = (Inr h, w)"
  by (simp add: cursor_def)

lemma split_on_nonempty: "split_on sep s \<noteq> []"
  by (induction s) (auto split: list.splits)

lemma resize_run:
  assumes "db w = Some t" "0 < n"
  shows "except_DatabaseError
           (and_then (execute h sql1 drop_column_profile) (\<lambda>_. execute h sql2 (add_column_profile n)))
           (execute h sql2 (add_column_profile n)) w =
         (Inr (), w\<lparr>db := Some (resized n t), trace := trace w @ [(h, sql1), (h, sql2)]\<rparr>)"
  using assms
  by (cases "profile_width t")
     (simp_all add: except_DatabaseError_def and_then_def execute_def comp_def resized_def
       drop_column_profile_def add_column_profile_def)

lemma vectorize_data_table:
  assumes "connection w = Bound (Some h)" "db w = Some t"
  shows "fst (vectorize_data cl w) = (case vectorized cl t of Inl e \<Rightarrow> Inl e | Inr t' \<Rightarrow> Inr ())"
    and "vectorized cl t = Inr t' \<Longrightarrow> db (snd (vectorize_data cl w)) = Some t'"
    and "connection (snd (vectorize_data cl w)) = connection w"
proof -
  let ?n = "length (split_on CHR '','' cl)"
  have n: "0 < ?n" using split_on_nonempty [of "CHR '',''" cl] by simp
  note r = resize_run [OF assms(2) n, of h]
  show "fst (vectorize_data cl w) = (case vectorized cl t of Inl e \<Rightarrow> Inl e | Inr t' \<Rightarrow> Inr ())"
    using assms(1)
    by (simp add: vectorize_data_def vectorized_def populated_def Let_def and_then_def [of cursor] cursor_bound r and_then_def [of "except_DatabaseError _ _"])
       (auto simp add: and_then_def cursor_def execute_def fetchall_def lift_def executemany_def commit_def done_with_def
         select_id_and_def update_profile_def
         split: option.splits sum.splits)
  show "vectorized cl t = Inr t' \<Longrightarrow> db (snd (vectorize_data cl w)) = Some t'"
    using assms(1)
    by (simp add: vectorize_data_def vectorized_def populated_def Let_def and_then_def [of cursor] cursor_bound r and_then_def [of "except_DatabaseError _ _"])
       (auto simp add: and_then_def cursor_def execute_def fetchall_def lift_def executemany_def commit_def done_with_def
         select_id_and_def update_profile_def
         split: option.splits sum.splits)
  show "connection (snd (vectorize_data cl w)) = connection w"
    using assms(1)
    by (simp add: vectorize_data_def vectorized_def populated_def Let_def and_then_def [of cursor] cursor_bound r and_then_def [of "except_DatabaseError _ _"])
       (auto simp add: and_then_def cursor_def execute_def fetchall_def lift_def executemany_def commit_def done_with_def
         select_id_and_def update_profile_def
         split: option.splits sum.splits)
qed

lemma vectorize_data_needs:
  assumes "fst (vectorize_data cl w) = Inr u"
  shows "\<exists>h t. connection w = Bound (Some h) \<and> db w = Some t"
proof -
  obtain h where h: "connection w = Bound (Some h)"
    using assms
    by (cases "connection w")
       (auto simp add: vectorize_data_def Let_def and_then_def cursor_def split: option.splits)
  have "db w \<noteq> None"
  proof
    assume "db w = None"
    with assms h show False
      by (simp add: vectorize_data_def Let_def and_then_def cursor_def except_DatabaseError_def
          execute_def drop_column_profile_def add_column_profile_def)
  qed
  with h show ?thesis by auto
qed

lemma update_each_clear:
  "update_each n bs rs = Inr rs' \<Longrightarrow>
   map (\<lambda>r. r\<lparr>profile := None\<rparr>) rs' = map (\<lambda>r. r\<lparr>profile := None\<rparr>) rs"
proof (induction bs arbitrary: rs)
  case Nil
  then show ?case by simp
next
  case (Cons b bs)
  then obtain rs1 where 1: "update_one n b rs = Inr rs1" and 2: "update_each n bs rs1 = Inr rs'"
    by (auto split: sum.splits)
  from 1 have "map (\<lambda>r. r\<lparr>profile := None\<rparr>) rs1 = map (\<lambda>r. r\<lparr>profile := None\<rparr>) rs"
    by (auto simp add: update_one_def split: if_splits)
  with Cons.IH [OF 2] show ?case by simp
qed

lemma populated_rows:
  assumes "populated cl t = Inr t1"
  shows "map (\<lambda>r. r\<lparr>profile := None\<rparr>) (rows t1) = map (\<lambda>r. r\<lparr>profile := None\<rparr>) (rows t)"
    and "identity t1 = identity t" and "profile_width t1 = profile_width t"
  using assms
  by (auto simp add: populated_def split: option.splits sum.splits dest: update_each_clear)

lemma vectorized_again:
  assumes "vectorized cl t = Inr t1"
  shows "vectorized cl t1 = Inr t1"
proof -
  let ?n = "length (split_on CHR '','' cl)"
  from assms have p: "populated cl (resized ?n t) = Inr t1"
    by (simp add: vectorized_def)
  have "resized ?n t1 = resized ?n t"
    using populated_rows [OF p] by (simp add: resized_def comp_def)
  with assms show ?thesis by (simp add: vectorized_def)
qed

lemma update_one_covers:
  assumes "update_one n b rs = Inr rs'" "r' \<in> set rs'"
  shows "(\<exists>v. profile r' = Some v \<and> length v = n) \<or> (snd b \<noteq> ident r' \<and> r' \<in> set rs)"
proof -
  from assms(1) have n: "length (fst b) = n"
    and rs': "rs' = map (\<lambda>r. if ident r = snd b then r\<lparr>profile := Some (fst b)\<rparr> else r) rs"
    by (simp_all add: update_one_def split: if_splits)
  from assms(2) obtain r where r: "r \<in> set rs"
    and r': "r' = (if ident r = snd b then r\<lparr>profile := Some (fst b)\<rparr> else r)"
    unfolding rs' by auto
  show ?thesis
  proof (cases "ident r = snd b")
    case True
    with r' n show ?thesis by simp
  next
    case False
    with r' r show ?thesis by simp
  qed
qed

lemma update_each_covers:
  assumes "update_each n bs rs = Inr rs'" "r' \<in> set rs'"
  shows "(\<exists>v. profile r' = Some v \<and> length v = n) \<or> (ident r' \<notin> snd ` set bs \<and> r' \<in> set rs)"
  using assms
proof (induction bs arbitrary: rs)
  case Nil
  then show ?case by simp
next
  case (Cons b bs)
  then obtain rs1 where 1: "update_one n b rs = Inr rs1" and 2: "update_each n bs rs1 = Inr rs'"
    by (auto split: sum.splits)
  from Cons.IH [OF 2 Cons.prems(2)] show ?case
  proof
    assume "\<exists>v. profile r' = Some v \<and> length v = n"
    then show ?thesis ..
  next
    assume a: "ident r' \<notin> snd ` set bs \<and> r' \<in> set rs1"
    with update_one_covers [OF 1, of r'] show ?thesis by auto
  qed
qed

lemma make_binds_ids:
  "make_binds (map (\<lambda>r. (ident r, g r)) rs) = Inr binds \<Longrightarrow> map snd binds = map ident rs"
  by (induction rs arbitrary: binds) (auto split: sum.splits)

lemma populated_lengths:
  assumes "populated cl t = Inr t'" "r' \<in> set (rows t')"
  shows "\<exists>v. profile r' = Some v \<and> length v = length (split_on CHR '','' cl)"
proof -
  let ?n = "length (split_on CHR '','' cl)"
  from assms(1) obtain fs binds rs where
    binds: "make_binds (map (\<lambda>r. (ident r, map (\<lambda>f. f r) fs)) (rows t)) = Inr binds" and
    rs: "update_each ?n binds (rows t) = Inr rs" and t': "t' = t\<lparr>rows := rs\<rparr>"
    by (auto simp add: populated_def split: option.splits sum.splits)
  from make_binds_ids [OF binds] have "set (map snd binds) = set (map ident (rows t))"
    by (rule arg_cong)
  then have cover: "snd ` set binds = ident ` set (rows t)"
    by (simp only: set_map)
  from assms(2) t' have "r' \<in> set rs" by simp
  from update_each_covers [OF rs this] cover show ?thesis by auto
qed

lemma vectorize_data_lengths:
  assumes "vectorize_data cl w = (Inr (), w')"
  shows "\<exists>t'. db w' = Some t' \<and> profile_width t' = Some (length (split_on CHR '','' cl))
           \<and> (\<forall>r \<in> set (rows t'). \<exists>v. profile r = Some v \<and> length v = length (split_on CHR '','' cl))"
proof -
  from assms have f: "fst (vectorize_data cl w) = Inr ()" by simp
  from vectorize_data_needs [OF f] obtain h t where h: "connection w = Bound (Some h)" and t: "db w = Some t"
    by auto
  from vectorize_data_table(1) [OF h t, of cl] f obtain t1 where v: "vectorized cl t = Inr t1"
    by (auto split: sum.splits)
  from vectorize_data_table(2) [OF h t v] assms have d1: "db w' = Some t1" by simp
  from v have p: "populated cl (resized (length (split_on CHR '','' cl)) t) = Inr t1"
    by (simp add: vectorized_def)
  from populated_rows(3) [OF p] have "profile_width t1 = Some (length (split_on CHR '','' cl))" by simp
  with d1 populated_lengths [OF p] show ?thesis by auto
qed

lemma resolve_numeric:
  assumes "set cs \<subseteq> {''age'', ''income''}"
  shows "\<exists>fs. resolve t cs = Some fs \<and> length fs = length cs \<and> (\<forall>f \<in> set fs. \<forall>r. \<exists>i. f r = VInt i)"
  using assms
proof (induction cs)
  case Nil
  then show ?case by simp
next
  case (Cons c cs)
  then obtain fs where fs: "resolve t cs = Some fs" "length fs = length cs"
    "\<forall>f \<in> set fs. \<forall>r. \<exists>i. f r = VInt i" by auto
  from Cons.prems have "c = ''age'' \<or> c = ''income''" by simp
  then obtain f where f: "column t c = Some f" "\<forall>r. \<exists>i. f r = VInt i"
    by (auto simp add: column_def)
  with fs show ?case by simp
qed

lemma array_f_numeric:
  "\<forall>v \<in> set vs. \<exists>i. v = VInt i \<Longrightarrow> \<exists>u. array_f vs = Inr u \<and> length u = length vs"
proof (induction vs)
  case Nil
  then show ?case by simp
next
  case (Cons v vs)
  then obtain i u where "v = VInt i" "array_f vs = Inr u" "length u = length vs" by auto
  then show ?case by simp
qed

lemma make_binds_numeric:
  assumes "\<forall>f \<in> set fs. \<forall>r. \<exists>i. f r = VInt i"
  shows "\<exists>binds. make_binds (map (\<lambda>r. (ident r, map (\<lambda>f. f r) fs)) rs) = Inr binds
           \<and> (\<forall>b \<in> set binds. length (fst b) = length fs)"
proof (induction rs)
  case Nil
  then show ?case by simp
next
  case (Cons r rs)
  then obtain binds where b: "make_binds (map (\<lambda>r. (ident r, map (\<lambda>f. f r) fs)) rs) = Inr binds"
    "\<forall>b \<in> set binds. length (fst b) = length fs" by auto
  from assms have "\<forall>v \<in> set (map (\<lambda>f. f r) fs). \<exists>i. v = VInt i" by auto
  from array_f_numeric [OF this] obtain u where "array_f (map (\<lambda>f. f r) fs) = Inr u" "length u = length fs"
    by auto
  with b show ?case by simp
qed

lemma update_each_ok:
  "\<forall>b \<in> set bs. length (fst b) = n \<Longrightarrow> \<exists>rs'. update_each n bs rs = Inr rs'"
  by (induction bs arbitrary: rs) (auto simp add: update_one_def)

lemma vectorized_numeric:
  assumes "set (split_on CHR '','' cl) \<subseteq> {''age'', ''income''}"
  shows "\<exists>t'. vectorized cl t = Inr t'"
proof -
  let ?cs = "split_on CHR '','' cl"
  let ?t = "resized (length ?cs) t"
  from resolve_numeric [OF assms, of ?t] obtain fs where fs: "resolve ?t ?cs = Some fs"
    "length fs = length ?cs" "\<forall>f \<in> set fs. \<forall>r. \<exists>i. f r = VInt i" by auto
  from make_binds_numeric [OF fs(3), of "rows ?t"] obtain binds where
    b: "make_binds (map (\<lambda>r. (ident r, map (\<lambda>f. f r) fs)) (rows ?t)) = Inr binds"
    "\<forall>b \<in> set binds. length (fst b) = length fs" by auto
  from b(2) fs(2) have "\<forall>b \<in> set binds. length (fst b) = length ?cs" by simp
  from update_each_ok [OF this, of "rows ?t"] obtain rs' where "update_each (length ?cs) binds (rows ?t) = Inr rs'" ..
  with fs(1) b(1) show ?thesis by (simp add: vectorized_def populated_def)
qed

lemma seeded_connection: "connection seeded = Bound (Some 0)"
  by (simp add: seeded_def create_schema_run [OF started_connection] started_connection)

lemma seeded_db: "db seeded = Some seed_table"
  by (simp add: seeded_def create_schema_run [OF started_connection])

lemma age_income_numeric: "set (split_on CHR '','' ''age,income'') \<subseteq> {''age'', ''income''}"
  by simp

lemma vectorize_data_trace:
  assumes "connection w = Bound (Some h)" "db w = Some t"
  shows "\<exists>rest. trace (snd (vectorize_data cl w)) =
           trace w @ [(h, ''alter table customer drop column profile''),
                      (h, ''alter table customer add profile vector(''
                            @ str_nat (length (split_on CHR '','' cl)) @ '', float32)'')] @ rest"
proof -
  let ?n = "length (split_on CHR '','' cl)"
  have n: "0 < ?n" using split_on_nonempty [of "CHR '',''" cl] by simp
  note r = resize_run [OF assms(2) n, of h]
  show ?thesis
    using assms(1)
    by (simp add: vectorize_data_def Let_def and_then_def [of cursor] cursor_bound r and_then_def [of "except_DatabaseError _ _"])
       (auto simp add: and_then_def cursor_def execute_def fetchall_def lift_def executemany_def commit_def done_with_def
         split: option.splits sum.splits)
qed

text \<open>
  C6. When a run of \<open>vectorize_data\<close> has completed, a second run with the same column
  list completes as well, and it leaves the table the first run left: every row has the
  embedding it had after the first run.
\<close>

theorem vectorize_data_twice:
  assumes "vectorize_data cl w = (Inr (), w1)"
  shows "\<exists>w2 t1. vectorize_data cl w1 = (Inr (), w2) \<and> db w1 = Some t1 \<and> db w2 = Some t1"
proof -
  from assms have f: "fst (vectorize_data cl w) = Inr ()" by simp
  from vectorize_data_needs [OF f] obtain h t where h: "connection w = Bound (Some h)" and t: "db w = Some t"
    by auto
  from vectorize_data_table(1) [OF h t, of cl] f obtain t1 where v: "vectorized cl t = Inr t1"
    by (auto split: sum.splits)
  from vectorize_data_table(2) [OF h t v] assms have d1: "db w1 = Some t1" by simp
  from vectorize_data_table(3) [OF h t, of cl] assms h have h1: "connection w1 = Bound (Some h)" by simp
  have v1: "vectorized cl t1 = Inr t1" by (rule vectorized_again [OF v])
  have "fst (vectorize_data cl w1) = Inr ()"
    using vectorize_data_table(1) [OF h1 d1, of cl] v1 by simp
  moreover have "db (snd (vectorize_data cl w1)) = Some t1"
    by (rule vectorize_data_table(2) [OF h1 d1 v1])
  ultimately show ?thesis using d1 by (cases "vectorize_data cl w1") auto
qed

theorem vectorize_data_twice_witness:
  "\<exists>w1 w2 t1. vectorize_data ''age,income'' seeded = (Inr (), w1)
      \<and> vectorize_data ''age,income'' w1 = (Inr (), w2) \<and> db w1 = Some t1 \<and> db w2 = Some t1"
proof -
  from vectorized_numeric [OF age_income_numeric, of seed_table]
  obtain t' where "vectorized ''age,income'' seed_table = Inr t'" ..
  with vectorize_data_table(1) [OF seeded_connection seeded_db, of "''age,income''"]
  have "fst (vectorize_data ''age,income'' seeded) = Inr ()" by simp
  then have w1: "vectorize_data ''age,income'' seeded = (Inr (), snd (vectorize_data ''age,income'' seeded))"
    by (cases "vectorize_data ''age,income'' seeded") simp
  from vectorize_data_twice [OF w1] w1 show ?thesis by blast
qed

text \<open>
  C7. Whenever \<open>vectorize_data\<close> completes, the embedding column has the number of
  selected columns as its declared width and every row stores an embedding of that
  length. For a selection of \<open>age\<close> and \<open>income\<close> over an existing table it does complete,
  whether or not the table had an embedding column: it sends the drop and then the add;
  when there is no such column the engine answers the drop with \<open>DatabaseError\<close>, which
  \<open>vectorize_data\<close> swallows.
\<close>

theorem vectorize_data_width:
  "(vectorize_data cl w = (Inr (), w') \<longrightarrow>
      (\<exists>t'. db w' = Some t' \<and> profile_width t' = Some (length (split_on CHR '','' cl))
         \<and> (\<forall>r \<in> set (rows t'). \<exists>v. profile r = Some v \<and> length v = length (split_on CHR '','' cl))))
   \<and> (connection w = Bound (Some h) \<and> db w = Some t
        \<and> set (split_on CHR '','' cl) \<subseteq> {''age'', ''income''} \<longrightarrow>
      (\<exists>w'' rest. vectorize_data cl w = (Inr (), w'')
         \<and> trace w'' =
             trace w @ [(h, ''alter table customer drop column profile''),
                        (h, ''alter table customer add profile vector(''
                              @ str_nat (length (split_on CHR '','' cl)) @ '', float32)'')] @ rest)
      \<and> (profile_width t = None \<longrightarrow> drop_column_profile (db w) = Inl DatabaseError))"
proof (intro conjI impI)
  assume "vectorize_data cl w = (Inr (), w')"
  then show "\<exists>t'. db w' = Some t' \<and> profile_width t' = Some (length (split_on CHR '','' cl))
         \<and> (\<forall>r \<in> set (rows t'). \<exists>v. profile r = Some v \<and> length v = length (split_on CHR '','' cl))"
    by (rule vectorize_data_lengths)
next
  assume a: "connection w = Bound (Some h) \<and> db w = Some t
        \<and> set (split_on CHR '','' cl) \<subseteq> {''age'', ''income''}"
  then have h: "connection w = Bound (Some h)" and t: "db w = Some t"
    and c: "set (split_on CHR '','' cl) \<subseteq> {''age'', ''income''}" by auto
  from vectorized_numeric [OF c, of t] obtain t' where "vectorized cl t = Inr t'" ..
  with vectorize_data_table(1) [OF h t, of cl] have "fst (vectorize_data cl w) = Inr ()" by simp
  then have "vectorize_data cl w = (Inr (), snd (vectorize_data cl w))"
    by (cases "vectorize_data cl w") simp
  with vectorize_data_trace [OF h t, of cl]
  show "\<exists>w'' rest. vectorize_data cl w = (Inr (), w'')
         \<and> trace w'' =
             trace w @ [(h, ''alter table customer drop column profile''),
                        (h, ''alter table customer add profile vector(''
                              @ str_nat (length (split_on CHR '','' cl)) @ '', float32)'')] @ rest"
    by blast
next
  assume a: "connection w = Bound (Some h) \<and> db w = Some t
        \<and> set (split_on CHR '','' cl) \<subseteq> {''age'', ''income''}"
    and "profile_width t = None"
  then show "drop_column_profile (db w) = Inl DatabaseError"
    by (simp add: drop_column_profile_def)
qed

theorem vectorize_data_width_witness:
  "profile_width seed_table = None
   \<and> drop_column_profile (db seeded) = Inl DatabaseError
   \<and> (\<exists>w' t'. vectorize_data ''age,income'' seeded = (Inr (), w') \<and> db w' = Some t'
         \<and> profile_width t' = Some 2
         \<and> (\<forall>r \<in> set (rows t'). \<exists>v. profile r = Some v \<and> length v = 2))"
proof -
  have p: "profile_width seed_table = None"
    by (simp add: seed_table_def data_to_insert_def)
  note inst = vectorize_data_width [of "''age,income''" seeded _ 0 seed_table]
  from inst seeded_connection seeded_db age_income_numeric
  obtain w' where w': "vectorize_data ''age,income'' seeded = (Inr (), w')" by blast
  from inst seeded_connection seeded_db age_income_numeric p
  have d: "drop_column_profile (db seeded) = Inl DatabaseError" by blast
  from vectorize_data_width [of "''age,income''" seeded w' 0 seed_table] w'
  have "\<exists>t'. db w' = Some t' \<and> profile_width t' = Some (length (split_on CHR '','' ''age,income''))
         \<and> (\<forall>r \<in> set (rows t'). \<exists>v. profile r = Some v \<and> length v = length (split_on CHR '','' ''age,income''))"
    by blast
  moreover have "length (split_on CHR '','' ''age,income'') = 2" by simp
  ultimately have "\<exists>t'. db w' = Some t' \<and> profile_width t' = Some 2
         \<and> (\<forall>r \<in> set (rows t'). \<exists>v. profile r = Some v \<and> length v = 2)" by (simp only:)
  with p d w' show ?thesis by blast
qed

section \<open>The workflows\<close>

lemma stableD: "stable R p \<Longrightarrow> R w (snd (p w))"
  by (simp add: stable_def)

lemma stable_and_then:
  assumes "transp R" "stable R m" "\<And>x. stable R (f x)"
  shows "stable R (and_then m f)"
  unfolding stable_def
proof
  fix w
  obtain r w1 where m: "m w = (r, w1)" by (cases "m w")
  from stableD [OF assms(2), of w] m have 1: "R w w1" by simp
  show "R w (snd (and_then m f w))"
  proof (cases r)
    case (Inl e)
    with m 1 show ?thesis by (simp add: and_then_def)
  next
    case (Inr x)
    from assms(3) [of x] have "stable R (f x)" .
    from stableD [OF this] have "R w1 (snd (f x w1))" .
    with 1 assms(1) have "R w (snd (f x w1))" by (blast dest: transpD)
    with m Inr show ?thesis by (simp add: and_then_def)
  qed
qed

lemma stable_except:
  assumes "transp R" "stable R body" "stable R handler"
  shows "stable R (except_DatabaseError body handler)"
  unfolding stable_def
proof
  fix w
  obtain r w1 where m: "body w = (r, w1)" by (cases "body w")
  from stableD [OF assms(2), of w] m have 1: "R w w1" by simp
  from stableD [OF assms(3), of w1] have "R w1 (snd (handler w1))" .
  with 1 assms(1) have 2: "R w (snd (handler w1))" by (blast dest: transpD)
  from m 1 2 show "R w (snd (except_DatabaseError body handler w))"
    by (cases r) (auto simp add: except_DatabaseError_def split: error.splits)
qed

lemma stable_read: "(\<And>x. stable R (p x)) \<Longrightarrow> stable R (\<lambda>w. p (g w) w)"
  by (simp add: stable_def)

lemma stable_done: "reflp R \<Longrightarrow> stable R (done_with x)"
  by (simp add: stable_def done_with_def reflpD)

lemma stable_lift: "reflp R \<Longrightarrow> stable R (lift r)"
  by (simp add: stable_def lift_def reflpD)

lemma stable_cursor: "reflp R \<Longrightarrow> stable R cursor"
  by (auto simp add: stable_def cursor_def reflpD split: conn_var.splits option.splits)

lemma globals_kept_refl: "reflp globals_kept"
  by (simp add: reflp_def globals_kept_def)

lemma globals_kept_trans: "transp globals_kept"
proof (rule transpI)
  fix x y z assume "globals_kept x y" "globals_kept y z"
  then have "y = x\<lparr>db := db y, trace := trace y\<rparr>" "z = y\<lparr>db := db z, trace := trace z\<rparr>"
    by (simp_all add: globals_kept_def)
  then have "z = x\<lparr>db := db y, trace := trace y\<rparr>\<lparr>db := db z, trace := trace z\<rparr>" by simp
  then show "globals_kept x z" by (simp add: globals_kept_def)
qed

lemma globals_kept_execute: "stable globals_kept (execute h sql effect)"
  by (simp add: stable_def globals_kept_def execute_def split: sum.splits)

lemma globals_kept_fetchall: "stable globals_kept (fetchall h sql result)"
  by (simp add: stable_def globals_kept_def fetchall_def split: sum.splits)

lemma globals_kept_executemany: "stable globals_kept (executemany h sql effect binds)"
  by (simp add: executemany_def globals_kept_execute stable_done globals_kept_refl)

lemmas globals_kept_rules =
  stable_and_then [OF globals_kept_trans] stable_except [OF globals_kept_trans]
  stable_done [OF globals_kept_refl] stable_lift [OF globals_kept_refl]
  stable_cursor [OF globals_kept_refl]
  globals_kept_execute globals_kept_fetchall globals_kept_executemany

lemma globals_kept_commit: "stable globals_kept commit"
  unfolding commit_def by (intro globals_kept_rules)

lemma globals_kept_vectorize_data: "stable globals_kept (vectorize_data cl)"
  unfolding vectorize_data_def Let_def by (intro globals_kept_rules globals_kept_commit)

lemma globals_kept_get_customer_profiles: "stable globals_kept get_customer_profiles"
  unfolding get_customer_profiles_def by (intro globals_kept_rules)

lemma globals_kept_get_similiar: "stable globals_kept (get_similiar_customer_profiles cl n k d)"
  unfolding get_similiar_customer_profiles_def by (intro globals_kept_rules)


lemma set_column_list_age_income:
  "set_column_list ''age,income'' w = (Inr (), w\<lparr>columns_list := ''age,income''\<rparr>)"
  by (simp add: set_column_list_def Let_def lower_def is_upper_def column_allow_list_def)

lemma set_distance_metric_euclidean:
  "set_distance_metric ''euclidean'' w = (Inr (), w\<lparr>distance_metric := ''EUCLIDEAN''\<rparr>)"
  by (simp add: set_distance_metric_def Let_def upper_def is_lower_def distance_allow_list_def)

lemma vectorized_seed:
  "vectorized ''age,income'' seed_table =
     Inr (seed_table\<lparr>rows := map (\<lambda>r. r\<lparr>profile := Some [float32 (age r), float32 (income r)]\<rparr>)
                               (rows seed_table),
                     profile_width := Some 2\<rparr>)"
  by (simp add: vectorized_def populated_def resized_def seed_table_def data_to_insert_def
      column_def update_one_def)

lemma vectorize_seed_run:
  assumes "connection w = Bound (Some h)" "db w = Some seed_table"
  shows "\<exists>w'. vectorize_data ''age,income'' w = (Inr (), w') \<and> db w' = Some embedded_seed
           \<and> globals_kept w w'"
proof -
  have v: "vectorized ''age,income'' seed_table = Inr embedded_seed"
    by (simp only: vectorized_seed embedded_seed_def)
  from vectorize_data_table(1) [OF assms, of "''age,income''"] v
  have "fst (vectorize_data ''age,income'' w) = Inr ()" by simp
  then have "vectorize_data ''age,income'' w = (Inr (), snd (vectorize_data ''age,income'' w))"
    by (cases "vectorize_data ''age,income'' w") simp
  moreover note vectorize_data_table(2) [OF assms v]
    stableD [OF globals_kept_vectorize_data, of w "''age,income''"]
  ultimately show ?thesis by blast
qed

lemma get_customer_profiles_run:
  assumes "connection w = Bound (Some h)" "db w = Some t" "profile_width t = Some n"
  shows "get_customer_profiles w =
           (Inr (map (\<lambda>r. (name r, profile r)) (rows t)),
            w\<lparr>trace := trace w @ [(h, ''select name, profile from customer'')]\<rparr>)"
  using assms
  by (simp add: get_customer_profiles_def and_then_def cursor_def fetchall_def select_name_profile_def)

lemma for_each_total:
  "(\<And>x. x \<in> set xs \<Longrightarrow> \<exists>y. f x = Inr y) \<Longrightarrow> \<exists>ys. for_each f xs = Inr ys"
proof (induction xs)
  case Nil
  then show ?case by simp
next
  case (Cons x xs)
  then obtain y ys where "f x = Inr y" "for_each f xs = Inr ys" by (metis list.set_intros)
  then show ?case by simp
qed

lemma embedded_seed_rows:
  "length (rows embedded_seed) = 10"
  "map (\<lambda>r. (name r, age r, income r)) (rows embedded_seed) = data_to_insert"
  "r \<in> set (rows embedded_seed) \<Longrightarrow> profile r = Some [float32 (age r), float32 (income r)]"
  "profile_width embedded_seed = Some 2"
  by (auto simp add: embedded_seed_def seed_table_def data_to_insert_def)

lemma plot_total:
  assumes "\<And>item. item \<in> set all_profiles \<Longrightarrow> \<exists>a b. snd item = Some [a, b]"
  shows "\<exists>names. for_each overview_name all_profiles = Inr names"
    and "\<exists>df. frame [c0, c1] ns all_profiles = Inr df"
proof -
  show "\<exists>names. for_each overview_name all_profiles = Inr names"
  proof (rule for_each_total)
    fix x assume "x \<in> set all_profiles"
    from assms [OF this] show "\<exists>y. overview_name x = Inr y"
      by (auto simp add: overview_name_def item_1_def)
  qed
  have "\<exists>xs. for_each (item_1 0) all_profiles = Inr xs"
  proof (rule for_each_total)
    fix x assume "x \<in> set all_profiles"
    from assms [OF this] show "\<exists>y. item_1 0 x = Inr y" by (auto simp add: item_1_def)
  qed
  moreover have "\<exists>xs. for_each (item_1 1) all_profiles = Inr xs"
  proof (rule for_each_total)
    fix x assume "x \<in> set all_profiles"
    from assms [OF this] show "\<exists>y. item_1 1 x = Inr y" by (auto simp add: item_1_def)
  qed
  ultimately show "\<exists>df. frame [c0, c1] ns all_profiles = Inr df"
    by (auto simp add: frame_def)
qed

lemma and_then_run:
  assumes "m w = (Inr x, w1)" "f x w1 = (Inr y, w2)"
  shows "and_then m f w = (Inr y, w2)"
  using assms by (simp add: and_then_def)

lemma globals_keptD:
  assumes "globals_kept w w'"
  shows "columns_list w' = columns_list w" "customer_name w' = customer_name w"
    "distance_metric w' = distance_metric w" "connection w' = connection w"
    "sessions w' = sessions w"
proof -
  from assms have e: "w' = w\<lparr>db := db w', trace := trace w'\<rparr>" by (simp add: globals_kept_def)
  show "columns_list w' = columns_list w" by (subst e) simp
  show "customer_name w' = customer_name w" by (subst e) simp
  show "distance_metric w' = distance_metric w" by (subst e) simp
  show "connection w' = connection w" by (subst e) simp
  show "sessions w' = sessions w" by (subst e) simp
qed

text \<open>
  C2. From any world in which \<open>init\<close> has bound a session, \<open>customers_chart\<close> on the columns
  \<open>age,income\<close> with the metric \<open>euclidean\<close> completes, and the table it leaves has
  exactly ten rows, the seed rows, each with a non-null embedding of length 2 that is
  its \<open>[age, income]\<close> cast to float.
\<close>

theorem customers_chart_table:
  assumes "connection w = Bound (Some h)"
  shows "\<exists>ch w' t. customers_chart ''age,income'' ''euclidean'' w = (Inr ch, w')
           \<and> db w' = Some t \<and> length (rows t) = 10
           \<and> map (\<lambda>r. (name r, age r, income r)) (rows t) = data_to_insert
           \<and> (\<forall>r \<in> set (rows t). profile r = Some [float32 (age r), float32 (income r)])"
proof -
  let ?w1 = "w\<lparr>columns_list := ''age,income''\<rparr>"
  let ?w2 = "?w1\<lparr>distance_metric := ''EUCLIDEAN''\<rparr>"
  note s1 = set_column_list_age_income [of w]
  note s2 = set_distance_metric_euclidean [of ?w1]
  from assms have c2: "connection ?w2 = Bound (Some h)" by simp
  define w3 where "w3 = snd (create_schema ?w2)"
  have s3: "create_schema ?w2 = (Inr (), w3)" and c3: "connection w3 = Bound (Some h)"
    and d3: "db w3 = Some seed_table" and l3: "columns_list w3 = ''age,income''"
    using assms by (simp_all add: w3_def create_schema_run [OF c2])
  from vectorize_seed_run [OF c3 d3] obtain w4 where
    v: "vectorize_data ''age,income'' w3 = (Inr (), w4)" and d4: "db w4 = Some embedded_seed"
    and g: "globals_kept w3 w4" by blast
  from v l3 have s4: "(\<lambda>w. vectorize_data (columns_list w) w) w3 = (Inr (), w4)" by simp
  from globals_keptD [OF g] c3 l3 have c4: "connection w4 = Bound (Some h)"
    and l4: "columns_list w4 = ''age,income''" by simp_all
  let ?all = "map (\<lambda>r. (name r, profile r)) (rows embedded_seed)"
  let ?w5 = "w4\<lparr>trace := trace w4 @ [(h, ''select name, profile from customer'')]\<rparr>"
  note s5 = get_customer_profiles_run [OF c4 d4 embedded_seed_rows(4)]
  have two: "\<exists>a b. snd item = Some [a, b]" if "item \<in> set ?all" for item
    using that embedded_seed_rows(3) by auto
  from plot_total(1) [of ?all, OF two] obtain names where
    n: "for_each overview_name ?all = Inr names" by blast
  from plot_total(2) [of ?all "''age''" "''income''" names, OF two] obtain df where
    f: "frame [''age'', ''income''] names ?all = Inr df" by blast
  from n have s6: "lift (for_each overview_name ?all) ?w5 = (Inr names, ?w5)"
    by (simp add: lift_def)
  from f l4 have s7: "(\<lambda>w. lift (frame (split_on CHR '','' (columns_list w)) names ?all) w) ?w5
                       = (Inr df, ?w5)"
    by (simp add: lift_def)
  have s8: "done_with (df\<lparr>annotations := map overview_text (data_frame df)\<rparr>) ?w5
              = (Inr (df\<lparr>annotations := map overview_text (data_frame df)\<rparr>), ?w5)"
    by (simp add: done_with_def)
  have "customers_chart ''age,income'' ''euclidean'' w
          = (Inr (df\<lparr>annotations := map overview_text (data_frame df)\<rparr>), ?w5)"
    unfolding customers_chart_def
    by (rule and_then_run, rule s1, rule and_then_run, rule s2, rule and_then_run, rule s3,
        rule and_then_run, rule s4, rule and_then_run, rule s5, rule and_then_run, rule s6,
        rule and_then_run, rule s7, rule s8)
  moreover have "db ?w5 = Some embedded_seed" using d4 by simp
  ultimately show ?thesis
    using embedded_seed_rows(1,2,3) by blast
qed

theorem customers_chart_table_witness:
  "\<exists>ch w' t. customers_chart ''age,income'' ''euclidean'' started = (Inr ch, w')
           \<and> db w' = Some t \<and> length (rows t) = 10
           \<and> map (\<lambda>r. (name r, age r, income r)) (rows t) = data_to_insert
           \<and> (\<forall>r \<in> set (rows t). profile r = Some [float32 (age r), float32 (income r)])"
  by (rule customers_chart_table [OF started_connection])

lemma embedded_seed_eq:
  "embedded_seed =
     \<lparr>rows =
        [\<lparr>ident = 1, name = ''John'', age = 28, income = 6500, profile = Some [28, 6500]\<rparr>,
         \<lparr>ident = 2, name = ''Jessica'', age = 22, income = 7000, profile = Some [22, 7000]\<rparr>,
         \<lparr>ident = 3, name = ''David'', age = 31, income = 3900, profile = Some [31, 3900]\<rparr>,
         \<lparr>ident = 4, name = ''Matthew'', age = 38, income = 5200, profile = Some [38, 5200]\<rparr>,
         \<lparr>ident = 5, name = ''Brandon'', age = 35, income = 4700, profile = Some [35, 4700]\<rparr>,
         \<lparr>ident = 6, name = ''Joshua'', age = 25, income = 2600, profile = Some [25, 2600]\<rparr>,
         \<lparr>ident = 7, name = ''Amanda'', age = 33, income = 6500, profile = Some [33, 6500]\<rparr>,
         \<lparr>ident = 8, name = ''Lauren'', age = 39, income = 5500, profile = Some [39, 5500]\<rparr>,
         \<lparr>ident = 9, name = ''James'', age = 26, income = 3200, profile = Some [26, 3200]\<rparr>,
         \<lparr>ident = 10, name = ''Olivia'', age = 44, income = 8200, profile = Some [44, 8200]\<rparr>],
      identity = 10, profile_width = Some 2\<rparr>"
  by (simp add: embedded_seed_def seed_table_def data_to_insert_def float32_def eval_nat_numeral)

lemma nearest_seed:
  "take 3 (sort_key (distance_key EUCLIDEAN (Some [22, 7000])) (rows embedded_seed)) =
     [\<lparr>ident = 2, name = ''Jessica'', age = 22, income = 7000, profile = Some [22, 7000]\<rparr>,
      \<lparr>ident = 1, name = ''John'', age = 28, income = 6500, profile = Some [28, 6500]\<rparr>,
      \<lparr>ident = 7, name = ''Amanda'', age = 33, income = 6500, profile = Some [33, 6500]\<rparr>]"
  by (simp add: embedded_seed_eq distance_key_def euclidean_def euclidean_squared_def)


lemma set_customer_Jessica:
  "set_customer ''Jessica'' w = (Inr (), w\<lparr>customer_name := ''Jessica''\<rparr>)"
  by (simp add: set_customer_def customer_allow_list_def title_def is_cased_def is_upper_def
      is_lower_def Let_def)

lemma get_connection_run:
  "\<exists>c w'. get_connection w = (Inr c, w') \<and> connection w' = connection w
      \<and> columns_list w' = columns_list w \<and> customer_name w' = customer_name w
      \<and> distance_metric w' = distance_metric w \<and> db w' = db w \<and> trace w' = trace w"
  by (simp add: get_connection_def load_dotenv_def oracledb_connect_def Let_def)

lemma Jessica_profile:
  "map profile (filter (\<lambda>r. name r = ''Jessica'') (rows embedded_seed)) = [Some [22, 7000]]"
  by (simp add: embedded_seed_eq)

lemma metric_of_EUCLIDEAN: "metric_of ''EUCLIDEAN'' = Some EUCLIDEAN"
  by (simp add: metric_of_def upper_def is_lower_def)

lemma get_similiar_seed_run:
  assumes "connection w = Bound (Some h)" "db w = Some embedded_seed"
  shows "get_similiar_customer_profiles cl ''Jessica'' 3 ''EUCLIDEAN'' w =
           (Inr [(''Jessica'', Some [22, 7000]), (''John'', Some [28, 6500]),
                 (''Amanda'', Some [33, 6500])],
            w\<lparr>trace := trace w @
               [(h, ''select profile from customer where name = :1''),
                (h, ''select name, profile from customer order by vector_distance(profile, :1, EUCLIDEAN) fetch first :2 rows only'')]\<rparr>)"
  using assms
  by (simp add: get_similiar_customer_profiles_def and_then_def cursor_def fetchall_def lift_def
      select_profile_where_name_def Jessica_profile fetchone_0_def select_nearest_def
      embedded_seed_rows(4) metric_of_EUCLIDEAN nearest_seed)



lemma age_income_split: "split_on CHR '','' ''age,income'' = [''age'', ''income'']"
  by simp

lemma similarity_chart_completes:
  assumes "similarity_queries c n d w = (Inr (sim, all), w')"
    and "frame (split_on CHR '','' (columns_list w')) (map fst all) all = Inr df"
  shows "\<exists>ch. similarity_chart c n d w = (Inr ch, w')"
  unfolding similarity_chart_def
  by (rule exI, rule and_then_run, rule assms(1))
     (simp add: assms(2) and_then_def lift_def done_with_def Let_def)

lemma similarity_run:
  assumes "connection w = Bound (Some h)"
  shows "\<exists>w' ch.
           similarity_queries ''age,income'' ''Jessica'' ''euclidean'' w =
             (Inr ([(''Jessica'', Some [22, 7000]), (''John'', Some [28, 6500]),
                    (''Amanda'', Some [33, 6500])],
                   map (\<lambda>r. (name r, profile r)) (rows embedded_seed)), w')
         \<and> similarity_chart ''age,income'' ''Jessica'' ''euclidean'' w = (Inr ch, w')"
proof -
  let ?w1 = "w\<lparr>columns_list := ''age,income''\<rparr>"
  let ?w2 = "?w1\<lparr>distance_metric := ''EUCLIDEAN''\<rparr>"
  let ?w3 = "?w2\<lparr>customer_name := ''Jessica''\<rparr>"
  note s1 = set_column_list_age_income [of w]
  note s2 = set_distance_metric_euclidean [of ?w1]
  note s3 = set_customer_Jessica [of ?w2]
  from get_connection_run [of ?w3] assms obtain c w4 where
    s4: "get_connection ?w3 = (Inr c, w4)" and c4: "connection w4 = Bound (Some h)"
    and l4: "columns_list w4 = ''age,income''" and n4: "customer_name w4 = ''Jessica''"
    and m4: "distance_metric w4 = ''EUCLIDEAN''"
    by auto
  define w5 where "w5 = snd (create_schema w4)"
  have s5: "create_schema w4 = (Inr (), w5)" and c5: "connection w5 = Bound (Some h)"
    and d5: "db w5 = Some seed_table" and l5: "columns_list w5 = ''age,income''"
    and n5: "customer_name w5 = ''Jessica''" and m5: "distance_metric w5 = ''EUCLIDEAN''"
    using c4 l4 n4 m4 by (simp_all add: w5_def create_schema_run [OF c4])
  from vectorize_seed_run [OF c5 d5] obtain w6 where
    v: "vectorize_data ''age,income'' w5 = (Inr (), w6)" and d6: "db w6 = Some embedded_seed"
    and g: "globals_kept w5 w6" by blast
  from v l5 have s6: "vectorize_data (columns_list w5) w5 = (Inr (), w6)" by simp
  from globals_keptD [OF g] c5 l5 n5 m5 have c6: "connection w6 = Bound (Some h)"
    and l6: "columns_list w6 = ''age,income''" and n6: "customer_name w6 = ''Jessica''"
    and m6: "distance_metric w6 = ''EUCLIDEAN''" by simp_all
  let ?sim = "[(''Jessica'', Some [22, 7000]), (''John'', Some [28, 6500]),
               (''Amanda'', Some [33, 6500])] :: (string \<times> real list option) list"
  let ?w7 = "w6\<lparr>trace := trace w6 @
               [(h, ''select profile from customer where name = :1''),
                (h, ''select name, profile from customer order by vector_distance(profile, :1, EUCLIDEAN) fetch first :2 rows only'')]\<rparr>"
  from get_similiar_seed_run [OF c6 d6, of "columns_list w6"] n6 m6
  have s7: "get_similiar_customer_profiles (columns_list w6) (customer_name w6) 3
              (distance_metric w6) w6 = (Inr ?sim, ?w7)" by simp
  from c6 have c7: "connection ?w7 = Bound (Some h)" by simp
  from d6 have d7: "db ?w7 = Some embedded_seed" by simp
  let ?all = "map (\<lambda>r. (name r, profile r)) (rows embedded_seed)"
  let ?w8 = "?w7\<lparr>trace := trace ?w7 @ [(h, ''select name, profile from customer'')]\<rparr>"
  note s8 = get_customer_profiles_run [OF c7 d7 embedded_seed_rows(4)]
  have s9: "done_with (?sim, ?all) ?w8 = (Inr (?sim, ?all), ?w8)"
    by (simp add: done_with_def)
  have q: "similarity_queries ''age,income'' ''Jessica'' ''euclidean'' w = (Inr (?sim, ?all), ?w8)"
    unfolding similarity_queries_def
    by (rule and_then_run, rule s1, rule and_then_run, rule s2, rule and_then_run, rule s3,
        rule and_then_run, rule s4, rule and_then_run, rule s5, rule and_then_run, rule s6,
        rule and_then_run, rule s7, rule and_then_run, rule s8, rule s9)
  have two: "\<exists>a b. snd item = Some [a, b]" if "item \<in> set ?all" for item
    using that embedded_seed_rows(3) by auto
  from plot_total(2) [of ?all "''age''" "''income''" "map fst ?all", OF two] obtain df where
    f: "frame [''age'', ''income''] (map fst ?all) ?all = Inr df" by blast
  from l6 have l8: "columns_list ?w8 = ''age,income''" by simp
  from f l8 have "frame (split_on CHR '','' (columns_list ?w8)) (map fst ?all) ?all = Inr df"
    by (simp only: age_income_split)
  from similarity_chart_completes [OF q this] obtain ch where
    ch: "similarity_chart ''age,income'' ''Jessica'' ''euclidean'' w = (Inr ch, ?w8)" ..
  from q ch show ?thesis by blast
qed




section \<open>The connection that similarity_chart uses\<close>

lemma sent_on_refl: "reflp (sent_on h)"
  by (simp add: reflp_def sent_on_def)

lemma sent_on_trans: "transp (sent_on h)"
proof (rule transpI)
  fix x y z assume xy: "sent_on h x y" and yz: "sent_on h y z"
  show "sent_on h x z"
    unfolding sent_on_def
  proof
    assume c: "connection x = Bound (Some h)"
    with xy obtain ops where 1: "connection y = connection x" "trace y = trace x @ ops"
      "\<forall>op \<in> set ops. fst op = h" by (auto simp add: sent_on_def)
    with c yz obtain ops' where 2: "connection z = connection y" "trace z = trace y @ ops'"
      "\<forall>op \<in> set ops'. fst op = h" by (auto simp add: sent_on_def)
    from 1 2 have "trace z = trace x @ (ops @ ops')" "\<forall>op \<in> set (ops @ ops'). fst op = h"
      by auto
    with 1 2 show "connection z = connection x
        \<and> (\<exists>ops. trace z = trace x @ ops \<and> (\<forall>op \<in> set ops. fst op = h))" by metis
  qed
qed

lemma sent_on_execute: "stable (sent_on h) (execute h sql effect)"
  by (simp add: stable_def sent_on_def execute_def split: sum.splits)

lemma sent_on_fetchall: "stable (sent_on h) (fetchall h sql result)"
  by (simp add: stable_def sent_on_def fetchall_def split: sum.splits)

lemma sent_on_executemany: "stable (sent_on h) (executemany h sql effect binds)"
  by (simp add: executemany_def sent_on_execute stable_done sent_on_refl)

lemma sent_on_cursor_then:
  assumes "stable (sent_on h) (f h)"
  shows "stable (sent_on h) (and_then cursor f)"
  unfolding stable_def
proof
  fix w
  show "sent_on h w (snd (and_then cursor f w))"
  proof (cases "connection w = Bound (Some h)")
    case True
    then have "and_then cursor f w = f h w" by (simp add: and_then_def cursor_def)
    with stableD [OF assms, of w] show ?thesis by simp
  next
    case False
    then show ?thesis by (simp add: sent_on_def)
  qed
qed

lemma sent_on_set_column_list: "stable (sent_on h) (set_column_list columns)"
  by (simp add: stable_def sent_on_def set_column_list_def Let_def)

lemma sent_on_set_distance_metric: "stable (sent_on h) (set_distance_metric distance)"
  by (simp add: stable_def sent_on_def set_distance_metric_def Let_def)

lemma sent_on_set_customer: "stable (sent_on h) (set_customer n)"
  by (simp add: stable_def sent_on_def set_customer_def Let_def)

lemma sent_on_get_connection: "stable (sent_on h) get_connection"
  by (simp add: stable_def sent_on_def get_connection_def load_dotenv_def oracledb_connect_def
      Let_def)

lemmas sent_on_rules =
  stable_and_then [OF sent_on_trans] stable_except [OF sent_on_trans]
  stable_done [OF sent_on_refl] stable_lift [OF sent_on_refl]
  sent_on_execute sent_on_fetchall sent_on_executemany sent_on_cursor_then
  sent_on_set_column_list sent_on_set_distance_metric sent_on_set_customer
  sent_on_get_connection

lemma sent_on_commit: "stable (sent_on h) commit"
  unfolding commit_def by (intro sent_on_rules)

lemma sent_on_insert_data: "stable (sent_on h) insert_data"
  unfolding insert_data_def by (intro sent_on_rules sent_on_commit)

lemma sent_on_execute_each: "stable (sent_on h) (execute_each h sql)"
  by (induction sql) (auto intro!: sent_on_rules)

lemma sent_on_create_schema: "stable (sent_on h) create_schema"
  unfolding create_schema_def Let_def
  by (intro sent_on_rules sent_on_execute_each sent_on_insert_data)

lemma sent_on_vectorize_data: "stable (sent_on h) (vectorize_data cl)"
  unfolding vectorize_data_def Let_def by (intro sent_on_rules sent_on_commit)

lemma sent_on_get_customer_profiles: "stable (sent_on h) get_customer_profiles"
  unfolding get_customer_profiles_def by (intro sent_on_rules)

lemma sent_on_get_similiar: "stable (sent_on h) (get_similiar_customer_profiles cl n k d)"
  unfolding get_similiar_customer_profiles_def by (intro sent_on_rules)

lemma sent_on_vectorize_read: "stable (sent_on h) (\<lambda>w. vectorize_data (columns_list w) w)"
  by (simp add: stable_def stableD [OF sent_on_vectorize_data])

lemma sent_on_get_similiar_read:
  "stable (sent_on h)
     (\<lambda>w. get_similiar_customer_profiles (columns_list w) (customer_name w) k (distance_metric w) w)"
  by (simp add: stable_def stableD [OF sent_on_get_similiar])

lemma sent_on_similarity_queries: "stable (sent_on h) (similarity_queries columns cust_name distance)"
  unfolding similarity_queries_def
  by (intro sent_on_rules sent_on_create_schema sent_on_vectorize_read
      sent_on_get_similiar_read sent_on_get_customer_profiles)

lemma plot_world:
  "snd ((let similiar_profiles = s
         in and_then (\<lambda>w. lift (frame (split_on CHR '','' (columns_list w)) ns all) w) (\<lambda>df.
            and_then (\<lambda>w. done_with (customer_name w) w) (\<lambda>subject.
            done_with (g df subject similiar_profiles)))) w) = w"
  by (simp add: Let_def and_then_def lift_def done_with_def split: sum.splits)

lemma sent_on_similarity_chart: "stable (sent_on h) (similarity_chart columns cust_name distance)"
  unfolding similarity_chart_def
proof (rule stable_and_then [OF sent_on_trans sent_on_similarity_queries])
  fix x :: "(string \<times> real list option) list \<times> (string \<times> real list option) list"
  obtain sim all where x: "x = (sim, all)" by (cases x)
  show "stable (sent_on h)
          (case x of (similarity_resultset, all_profiles) \<Rightarrow>
             let similiar_profiles = set (map fst similarity_resultset)
             in and_then (\<lambda>w. lift (frame (split_on CHR '','' (columns_list w)) (map fst all_profiles)
                                       all_profiles) w) (\<lambda>df.
                and_then (\<lambda>w. done_with (customer_name w) w) (\<lambda>subject.
                done_with (df\<lparr>annotations :=
                                 map (similarity_text subject similiar_profiles) (data_frame df)\<rparr>))))"
    unfolding x stable_def
    using plot_world [of "set (map fst sim)" "map fst all" all
        "\<lambda>df subject similiar_profiles. df\<lparr>annotations :=
             map (similarity_text subject similiar_profiles) (data_frame df)\<rparr>"]
    by (simp add: reflpD [OF sent_on_refl])
qed


lemma globals_kept_insert_data: "stable globals_kept insert_data"
  unfolding insert_data_def by (intro globals_kept_rules globals_kept_commit)

lemma globals_kept_execute_each: "stable globals_kept (execute_each h sql)"
  by (induction sql) (auto intro!: globals_kept_rules)

lemma globals_kept_create_schema: "stable globals_kept create_schema"
  unfolding create_schema_def Let_def
  by (intro globals_kept_rules globals_kept_execute_each globals_kept_insert_data)

lemma globals_kept_vectorize_read: "stable globals_kept (\<lambda>w. vectorize_data (columns_list w) w)"
  by (simp add: stable_def stableD [OF globals_kept_vectorize_data])

lemma globals_kept_get_similiar_read:
  "stable globals_kept
     (\<lambda>w. get_similiar_customer_profiles (columns_list w) (customer_name w) k (distance_metric w) w)"
  by (simp add: stable_def stableD [OF globals_kept_get_similiar])

lemma globals_kept_queries_tail:
  "stable globals_kept
     (and_then create_schema (\<lambda>_.
      and_then (\<lambda>w. vectorize_data (columns_list w) w) (\<lambda>_.
      and_then (\<lambda>w. get_similiar_customer_profiles (columns_list w) (customer_name w) 3
                       (distance_metric w) w) (\<lambda>similarity_resultset.
      and_then get_customer_profiles (\<lambda>all_profiles.
      done_with (similarity_resultset, all_profiles))))))"
  by (intro globals_kept_rules globals_kept_create_schema globals_kept_vectorize_read
      globals_kept_get_similiar_read globals_kept_get_customer_profiles)

lemma and_then_InrD:
  "and_then m f w = (Inr y, w') \<Longrightarrow> \<exists>x w1. m w = (Inr x, w1) \<and> f x w1 = (Inr y, w')"
  by (auto simp add: and_then_def split: prod.splits sum.splits)

lemma setters_world:
  "snd (set_column_list columns w) = w\<lparr>columns_list := lower columns\<rparr>"
  "snd (set_distance_metric distance w) = w\<lparr>distance_metric := upper distance\<rparr>"
  "snd (set_customer n w) = w\<lparr>customer_name := title n\<rparr>"
  by (simp_all add: set_column_list_def set_distance_metric_def set_customer_def Let_def)

lemma get_connection_sessions:
  "sessions (snd (get_connection w)) =
     (if accepts w ((dotenv w ++ environ w) ''DB_USER'') ((dotenv w ++ environ w) ''DB_PASS'')
           ((dotenv w ++ environ w) ''DB_URL'')
      then Suc (sessions w) else sessions w)"
  by (simp add: get_connection_def load_dotenv_def oracledb_connect_def Let_def)

lemma similarity_queries_sessions:
  assumes "similarity_queries columns cust_name distance w = (Inr x, w')"
  shows "sessions w' =
     (if accepts w ((dotenv w ++ environ w) ''DB_USER'') ((dotenv w ++ environ w) ''DB_PASS'')
           ((dotenv w ++ environ w) ''DB_URL'')
      then Suc (sessions w) else sessions w)"
proof -
  from assms [unfolded similarity_queries_def] obtain u1 w1 where
    1: "set_column_list columns w = (Inr u1, w1)" and
    r1: "and_then (set_distance_metric distance) (\<lambda>_.
          and_then (set_customer cust_name) (\<lambda>_.
          and_then get_connection (\<lambda>local_connection.
          and_then create_schema (\<lambda>_.
          and_then (\<lambda>w. vectorize_data (columns_list w) w) (\<lambda>_.
          and_then (\<lambda>w. get_similiar_customer_profiles (columns_list w) (customer_name w) 3
                           (distance_metric w) w) (\<lambda>similarity_resultset.
          and_then get_customer_profiles (\<lambda>all_profiles.
          done_with (similarity_resultset, all_profiles)))))))) w1 = (Inr x, w')"
    by (blast dest: and_then_InrD)
  from r1 obtain u2 w2 where
    2: "set_distance_metric distance w1 = (Inr u2, w2)" and
    r2: "and_then (set_customer cust_name) (\<lambda>_.
          and_then get_connection (\<lambda>local_connection.
          and_then create_schema (\<lambda>_.
          and_then (\<lambda>w. vectorize_data (columns_list w) w) (\<lambda>_.
          and_then (\<lambda>w. get_similiar_customer_profiles (columns_list w) (customer_name w) 3
                           (distance_metric w) w) (\<lambda>similarity_resultset.
          and_then get_customer_profiles (\<lambda>all_profiles.
          done_with (similarity_resultset, all_profiles))))))) w2 = (Inr x, w')"
    by (blast dest: and_then_InrD)
  from r2 obtain u3 w3 where
    3: "set_customer cust_name w2 = (Inr u3, w3)" and
    r3: "and_then get_connection (\<lambda>local_connection.
          and_then create_schema (\<lambda>_.
          and_then (\<lambda>w. vectorize_data (columns_list w) w) (\<lambda>_.
          and_then (\<lambda>w. get_similiar_customer_profiles (columns_list w) (customer_name w) 3
                           (distance_metric w) w) (\<lambda>similarity_resultset.
          and_then get_customer_profiles (\<lambda>all_profiles.
          done_with (similarity_resultset, all_profiles)))))) w3 = (Inr x, w')"
    by (blast dest: and_then_InrD)
  from r3 obtain c w4 where
    4: "get_connection w3 = (Inr c, w4)" and
    r4: "and_then create_schema (\<lambda>_.
          and_then (\<lambda>w. vectorize_data (columns_list w) w) (\<lambda>_.
          and_then (\<lambda>w. get_similiar_customer_profiles (columns_list w) (customer_name w) 3
                           (distance_metric w) w) (\<lambda>similarity_resultset.
          and_then get_customer_profiles (\<lambda>all_profiles.
          done_with (similarity_resultset, all_profiles))))) w4 = (Inr x, w')"
    by (blast dest: and_then_InrD)
  from stableD [OF globals_kept_queries_tail, of w4] r4 have "globals_kept w4 w'" by simp
  then have s: "sessions w' = sessions w4" by (rule globals_keptD(5))
  from 1 2 3 setters_world(1) [of columns w] setters_world(2) [of distance w1]
    setters_world(3) [of cust_name w2]
  have w3: "w3 = w\<lparr>columns_list := lower columns, distance_metric := upper distance,
                     customer_name := title cust_name\<rparr>" by simp
  from 4 get_connection_sessions [of w3] have "sessions w4 =
     (if accepts w3 ((dotenv w3 ++ environ w3) ''DB_USER'') ((dotenv w3 ++ environ w3) ''DB_PASS'')
           ((dotenv w3 ++ environ w3) ''DB_URL'')
      then Suc (sessions w3) else sessions w3)" by simp
  with s show ?thesis by (simp add: w3)
qed

lemma started_accepts:
  "accepts started ((dotenv started ++ environ started) ''DB_USER'')
     ((dotenv started ++ environ started) ''DB_PASS'')
     ((dotenv started ++ environ started) ''DB_URL'')"
  by (simp add: started_eq fresh_process_def)

lemma started_sessions: "sessions started = 1"
  by (simp add: started_eq)

text \<open>
  C10. Let \<open>init\<close> have bound \<open>connection\<close> to session \<open>h\<close>. Whatever \<open>similarity_chart\<close>
  returns or raises, \<open>connection\<close> is bound to \<open>h\<close> afterwards as before, and every statement
  it sent, it sent on session \<open>h\<close>. When it returns a chart, it has asked the server for
  one more session, which is then open beside \<open>h\<close> if the server accepted the credentials
  of the environment; no statement went over it.
\<close>

theorem similarity_chart_connection:
  assumes "connection w = Bound (Some h)"
    and "similarity_chart columns cust_name distance w = (r, w')"
  shows "connection w' = Bound (Some h)
       \<and> (\<exists>ops. trace w' = trace w @ ops \<and> (\<forall>op \<in> set ops. fst op = h))
       \<and> (\<forall>ch. r = Inr ch \<longrightarrow>
            sessions w' =
              (if accepts w ((dotenv w ++ environ w) ''DB_USER'')
                    ((dotenv w ++ environ w) ''DB_PASS'') ((dotenv w ++ environ w) ''DB_URL'')
               then Suc (sessions w) else sessions w))"
proof (intro conjI allI impI)
  from stableD [OF sent_on_similarity_chart, of h w columns cust_name distance] assms
  have "connection w' = connection w
        \<and> (\<exists>ops. trace w' = trace w @ ops \<and> (\<forall>op \<in> set ops. fst op = h))"
    by (simp add: sent_on_def)
  with assms(1) show "connection w' = Bound (Some h)"
    and "\<exists>ops. trace w' = trace w @ ops \<and> (\<forall>op \<in> set ops. fst op = h)" by simp_all
next
  fix ch assume "r = Inr ch"
  with assms(2) have "similarity_chart columns cust_name distance w = (Inr ch, w')" by simp
  from and_then_InrD [OF this [unfolded similarity_chart_def]] obtain x w1 where
    q: "similarity_queries columns cust_name distance w = (Inr x, w1)" and
    k: "(case x of (similarity_resultset, all_profiles) \<Rightarrow>
           let similiar_profiles = set (map fst similarity_resultset)
           in and_then (\<lambda>w. lift (frame (split_on CHR '','' (columns_list w)) (map fst all_profiles)
                                     all_profiles) w) (\<lambda>df.
              and_then (\<lambda>w. done_with (customer_name w) w) (\<lambda>subject.
              done_with (df\<lparr>annotations :=
                               map (similarity_text subject similiar_profiles) (data_frame df)\<rparr>))))
          w1 = (Inr ch, w')" by blast
  obtain sim all where x: "x = (sim, all)" by (cases x)
  from k [unfolded x] plot_world [of "set (map fst sim)" "map fst all" all
        "\<lambda>df subject similiar_profiles. df\<lparr>annotations :=
             map (similarity_text subject similiar_profiles) (data_frame df)\<rparr>" w1]
  have "w' = w1" by simp
  with similarity_queries_sessions [OF q]
  show "sessions w' =
              (if accepts w ((dotenv w ++ environ w) ''DB_USER'')
                    ((dotenv w ++ environ w) ''DB_PASS'') ((dotenv w ++ environ w) ''DB_URL'')
               then Suc (sessions w) else sessions w)" by simp
qed

theorem similarity_chart_connection_witness:
  "\<exists>ch w'. similarity_chart ''age,income'' ''Jessica'' ''euclidean'' started = (Inr ch, w')
      \<and> connection started = Bound (Some 0) \<and> connection w' = Bound (Some 0)
      \<and> (\<exists>ops. trace w' = trace started @ ops \<and> (\<forall>op \<in> set ops. fst op = 0))
      \<and> sessions started = 1 \<and> sessions w' = 2"
proof -
  from similarity_run [OF started_connection] obtain w' ch where
    ch: "similarity_chart ''age,income'' ''Jessica'' ''euclidean'' started = (Inr ch, w')"
    by blast
  from similarity_chart_connection [OF started_connection ch] started_accepts started_sessions
  have "connection w' = Bound (Some 0)"
    and "\<exists>ops. trace w' = trace started @ ops \<and> (\<forall>op \<in> set ops. fst op = 0)"
    and "sessions w' = 2" by simp_all
  with ch started_connection started_sessions show ?thesis by blast
qed

end
